theory Spec2Isabelle
  imports Main
begin

section \<open>Observable entities (database.py)\<close>

text \<open>
  Exceptions of the Python code are values. \<open>ValueError\<close> and \<open>NameError\<close> carry what
  the source puts into them: the message, and the name that is not defined.
  \<open>TypeError\<close> is what subscripting the \<open>None\<close> of an empty \<open>fetchone()\<close> raises, and
  what \<open>json.dumps\<close> raises on an object it cannot encode; \<open>AttributeError\<close> is what
  \<open>.tolist()\<close> raises on an object without that method; \<open>OperationalError\<close> is
  \<open>sqlite3.OperationalError\<close>.
\<close>

datatype py_error =
    ValueError string
  | NameError string
  | TypeError string
  | AttributeError string
  | OperationalError string

text \<open>
  The classes of database.py: the base class and its eight subclasses. A subclass only
  overrides the class attribute \<open>required_params\<close>.
\<close>

datatype observable_class =
    Observable
  | Multiplicity
  | MeanPT
  | IntegratedVn2
  | IntegratedVn4
  | PtDifferentialVn2
  | PtDifferentialVn4
  | TransverseEnergy
  | PTFluc

fun required_params :: "observable_class \<Rightarrow> string list" where
  "required_params Observable = []"
| "required_params Multiplicity = [''particle_type'', ''rapidity_range'', ''pT_range'']"
| "required_params MeanPT = [''particle_type'', ''rapidity_range'', ''pT_range'']"
| "required_params IntegratedVn2 = [''harmonic_n'', ''rapidity_range'', ''pT_range'']"
| "required_params IntegratedVn4 = [''harmonic_n'', ''rapidity_range'', ''pT_range'']"
| "required_params PtDifferentialVn2 = [''harmonic_n'', ''rapidity_range'', ''pT_bins'']"
| "required_params PtDifferentialVn4 = [''harmonic_n'', ''rapidity_range'', ''pT_bins'']"
| "required_params TransverseEnergy = [''particle_type'', ''rapidity_range'', ''pT_range'']"
| "required_params PTFluc = [''particle_type'', ''rapidity_range'', ''pT_range'']"

text \<open>\<open>self.__class__.__name__\<close>, as the error message prints it.\<close>

fun class_name :: "observable_class \<Rightarrow> string" where
  "class_name Observable = ''Observable''"
| "class_name Multiplicity = ''Multiplicity''"
| "class_name MeanPT = ''MeanPT''"
| "class_name IntegratedVn2 = ''IntegratedVn2''"
| "class_name IntegratedVn4 = ''IntegratedVn4''"
| "class_name PtDifferentialVn2 = ''PtDifferentialVn2''"
| "class_name PtDifferentialVn4 = ''PtDifferentialVn4''"
| "class_name TransverseEnergy = ''TransverseEnergy''"
| "class_name PTFluc = ''PTFluc''"

text \<open>
  A Python float, as \<open>repr\<close> shows it. \<open>repr\<close> prints the shortest decimal number
  that identifies the float, and \<open>float\<close> of that text is the float again, so a finite
  float is named by a sign and a decimal number \<open>m * 10 ^ e\<close> whose last digit is not
  zero: \<open>Finite neg q d e\<close> has the digits of \<open>10 * q + d\<close>. The type holds every
  such decimal number; the floats are the ones that \<open>repr\<close> can print. The rounding
  of other decimal texts to the nearest float is not modelled. Equality on this type is
  identity of the float: the two zeros differ, and \<open>NaN\<close> is \<open>NaN\<close>, where
  Python's \<open>==\<close> says otherwise.
\<close>

datatype nzdigit = D1 | D2 | D3 | D4 | D5 | D6 | D7 | D8 | D9

fun nz_val :: "nzdigit \<Rightarrow> nat" where
  "nz_val D1 = 1" | "nz_val D2 = 2" | "nz_val D3 = 3"
| "nz_val D4 = 4" | "nz_val D5 = 5" | "nz_val D6 = 6"
| "nz_val D7 = 7" | "nz_val D8 = 8" | "nz_val D9 = 9"

definition nz_of :: "nat \<Rightarrow> nzdigit" where
  "nz_of n =
     (if n = 1 then D1 else if n = 2 then D2 else if n = 3 then D3
      else if n = 4 then D4 else if n = 5 then D5 else if n = 6 then D6
      else if n = 7 then D7 else if n = 8 then D8 else D9)"

datatype pyfloat =
    Zero bool
  | Finite bool nat nzdigit int
  | Infinity bool
  | NaN

text \<open>
  What \<open>tolist()\<close> returns for a numpy array of numbers, and what \<open>np.array\<close> turns
  back into that array: a number for an array without axes, a list for an axis.
\<close>

datatype jval = JInt int | JFloat pyfloat | JList "jval list"

text \<open>
  What a caller passes for \<open>centrality_bins\<close>, \<open>values\<close> and \<open>errors\<close>; the
  constructor takes any object. \<open>NdArray\<close> is a numpy array of integers or of
  floats, as the first usage example passes it, given by the nested list that its
  \<open>tolist()\<close> returns. \<open>ObjectArray\<close> is a numpy array with one axis that holds
  objects which \<open>json\<close> cannot encode, given by the name of their type and their
  number: \<open>np.array([...])\<close> of the unfinished examples is the array of one
  \<open>Ellipsis\<close>. \<open>PlainList\<close> is a Python list of numbers, which has no
  \<open>tolist\<close>. Other objects are not modelled.
\<close>

datatype array_arg = NdArray jval | ObjectArray string nat | PlainList jval

text \<open>
  A character of a Python string: a code point below 256 as a \<open>char\<close>, or a
  larger code point together with what \<open>str.isprintable\<close> says of it.
\<close>

datatype pychar = Chr char | Wide nat bool

type_synonym pystr = "pychar list"

definition py :: "string \<Rightarrow> pystr" where
  "py s = map Chr s"

text \<open>
  The object that \<open>Observable.__init__\<close> builds: the nine positional attributes, the
  class, and the attributes set from the keyword arguments, in the order the loop sets
  them. The constructor never looks into a keyword argument's value, so the type of
  these values is a parameter.
\<close>

record 'v observable =
  cls :: observable_class
  name :: string
  short_name :: string
  collision_system :: string
  collaboration :: string
  reference :: "(pystr \<times> pystr) list"
  centrality_bins :: array_arg
  values_of :: array_arg
  errors :: array_arg
  trigger_info :: "(string \<times> string) list"
  params :: "(string \<times> 'v) list"

text \<open>
  The loop of \<open>__init__\<close> over \<open>self.required_params\<close>: a parameter found in
  \<open>kwargs\<close> becomes an attribute, the first one that is not found raises
  \<open>ValueError\<close>. \<open>kwargs\<close> is a dictionary, here a map.
\<close>

fun set_required ::
  "string \<Rightarrow> string list \<Rightarrow> (string \<rightharpoonup> 'v) \<Rightarrow> py_error + (string \<times> 'v) list" where
  "set_required c [] kwargs = Inr []"
| "set_required c (param # ps) kwargs =
     (case kwargs param of
        Some v \<Rightarrow>
          (case set_required c ps kwargs of
             Inl e \<Rightarrow> Inl e
           | Inr attrs \<Rightarrow> Inr ((param, v) # attrs))
      | None \<Rightarrow>
          Inl (ValueError (''Missing required parameter: '' @ param @ '' for '' @ c)))"

definition init ::
  "observable_class \<Rightarrow> string \<Rightarrow> string \<Rightarrow> string \<Rightarrow> string \<Rightarrow> (pystr \<times> pystr) list \<Rightarrow>
   array_arg \<Rightarrow> array_arg \<Rightarrow> array_arg \<Rightarrow> (string \<times> string) list \<Rightarrow> (string \<rightharpoonup> 'v) \<Rightarrow>
   py_error + 'v observable" where
  "init k nm sn sys coll ref bins vals errs trig kwargs =
     (case set_required (class_name k) (required_params k) kwargs of
        Inl e \<Rightarrow> Inl e
      | Inr attrs \<Rightarrow>
          Inr \<lparr> cls = k, name = nm, short_name = sn, collision_system = sys,
                collaboration = coll, reference = ref, centrality_bins = bins,
                values_of = vals, errors = errs, trigger_info = trig, params = attrs \<rparr>)"

text \<open>
  The values that the keyword arguments of the source's examples carry. A float is kept
  as the literal the source writes for it; nothing computes with it.
\<close>

datatype pyval = PyStr string | PyInt int | PyFloat string | PyList "pyval list"

text \<open>
  \<open>len\<close> of such an argument: the length of the first axis, or of the list; an array
  without axes has none (\<open>TypeError\<close> in Python, \<open>None\<close> here).
\<close>

fun py_len :: "array_arg \<Rightarrow> nat option" where
  "py_len (NdArray (JList xs)) = Some (length xs)"
| "py_len (NdArray _) = None"
| "py_len (ObjectArray _ n) = Some n"
| "py_len (PlainList (JList xs)) = Some (length xs)"
| "py_len (PlainList _) = None"

section \<open>The text columns: \<open>json.dumps\<close>, \<open>json.loads\<close> and \<open>str\<close>\<close>

text \<open>
  \<open>insert_integrated_observable_data\<close> writes \<open>json.dumps(a.tolist())\<close> for the three
  arrays and \<open>str(obs.reference)\<close> for the reference dictionary. These are library
  functions; they are modelled on the values the code passes to them: nested lists of
  numbers, and a dictionary from strings to strings.

  \<open>json.dumps\<close> prints an integer in decimal, a float with \<open>float.__repr__\<close> or as
  \<open>NaN\<close>, \<open>Infinity\<close>, \<open>-Infinity\<close>, and a list with the item separator \<open>", "\<close>.
\<close>

definition digit_char :: "nat \<Rightarrow> char" where
  "digit_char d = char_of (48 + d)"

function str_nat :: "nat \<Rightarrow> string" where
  "str_nat n = (if n < 10 then [digit_char n] else str_nat (n div 10) @ [digit_char (n mod 10)])"
  by pat_completeness auto
termination
  by (relation "measure (\<lambda>n. n)") auto

declare str_nat.simps [simp del]

definition str_int :: "int \<Rightarrow> string" where
  "str_int i = (if i < 0 then CHR ''-'' # str_nat (nat (- i)) else str_nat (nat i))"

text \<open>
  \<open>repr\<close> of a finite float other than zero, from the number \<open>m\<close> of its digits and
  the exponent \<open>e\<close>. With \<open>n\<close> digits the decimal point stands \<open>n + e\<close> places after
  the first digit's left side. \<open>repr\<close> writes the exponent form when that position is
  at most \<open>-4\<close> or above 16, with a sign and at least two digits in the exponent;
  otherwise it writes all digits, filled with zeros, and ends a whole number with
  \<open>.0\<close>.
\<close>

definition pad2 :: "string \<Rightarrow> string" where
  "pad2 s = (if length s < 2 then CHR ''0'' # s else s)"

definition repr_finite :: "nat \<Rightarrow> int \<Rightarrow> string" where
  "repr_finite m e =
     (let ds = str_nat m; n = int (length ds); decpt = n + e
      in if decpt \<le> - 4 \<or> 16 < decpt then
           hd ds # (if tl ds = [] then [] else CHR ''.'' # tl ds) @
           CHR ''e'' # (if decpt - 1 < 0 then CHR ''-'' else CHR ''+'') #
           pad2 (str_nat (nat (abs (decpt - 1))))
         else if decpt \<le> 0 then
           CHR ''0'' # CHR ''.'' # replicate (nat (- decpt)) (CHR ''0'') @ ds
         else if decpt < n then
           take (nat decpt) ds @ CHR ''.'' # drop (nat decpt) ds
         else
           ds @ replicate (nat (decpt - n)) (CHR ''0'') @ [CHR ''.'', CHR ''0''])"

definition sign_text :: "bool \<Rightarrow> string" where
  "sign_text neg = (if neg then [CHR ''-''] else [])"

fun floatstr :: "pyfloat \<Rightarrow> string" where
  "floatstr (Zero neg) = sign_text neg @ ''0.0''"
| "floatstr (Finite neg q d e) = sign_text neg @ repr_finite (10 * q + nz_val d) e"
| "floatstr (Infinity neg) = sign_text neg @ ''Infinity''"
| "floatstr NaN = ''NaN''"

text \<open>\<open>sep.join(items)\<close>\<close>

fun join :: "'a list \<Rightarrow> 'a list list \<Rightarrow> 'a list" where
  "join sep [] = []"
| "join sep [x] = x"
| "join sep (x # y # ys) = x @ sep @ join sep (y # ys)"

fun json_dumps :: "jval \<Rightarrow> string" where
  "json_dumps (JInt i) = str_int i"
| "json_dumps (JFloat x) = floatstr x"
| "json_dumps (JList xs) = ''['' @ join '', '' (map json_dumps xs) @ '']''"

text \<open>
  \<open>json.loads\<close> on the same fragment of JSON: arrays and numbers, with the whitespace
  the decoder skips (after \<open>[\<close>, around \<open>,\<close>, before \<open>]\<close>, and around the whole
  text). A number is what the decoder's pattern
  \<open>(-?(?:0|[1-9]\\d*))(\\.\\d+)?([eE][-+]?\\d+)?\<close> matches: an integer part, in
  which a leading zero ends the number, an optional fraction and an optional exponent.
  With neither fraction nor exponent it is an integer, otherwise a float; where no
  number stands, \<open>NaN\<close>, \<open>Infinity\<close> and \<open>-Infinity\<close> are floats as well.
  \<open>None\<close> stands for \<open>JSONDecodeError\<close> and for a text whose value is outside the
  fragment (a string, an object, \<open>true\<close>, \<open>false\<close>, \<open>null\<close>). The recursion is
  bounded by the length of the text: a call consumes fuel only where the decoder
  consumes a character of the text or returns.
\<close>

definition is_ws :: "char \<Rightarrow> bool" where
  "is_ws c = (c = CHR '' '' \<or> c = CHR 0x09 \<or> c = CHR 0x0A \<or> c = CHR 0x0D)"

definition skip_ws :: "string \<Rightarrow> string" where
  "skip_ws s = dropWhile is_ws s"

definition is_digit :: "char \<Rightarrow> bool" where
  "is_digit c = (48 \<le> (of_char c :: nat) \<and> (of_char c :: nat) \<le> 57)"

definition digit_val :: "char \<Rightarrow> nat" where
  "digit_val c = of_char c - 48"

definition nat_of_digits :: "string \<Rightarrow> nat" where
  "nat_of_digits ds = foldl (\<lambda>a c. 10 * a + digit_val c) 0 ds"

text \<open>The three parts of the pattern, each with the text that follows its match.\<close>

definition scan_int_part :: "string \<Rightarrow> (string \<times> string) option" where
  "scan_int_part s =
     (case s of
        [] \<Rightarrow> None
      | c # r \<Rightarrow>
          if c = CHR ''0'' then Some ([c], r)
          else if is_digit c then Some (c # takeWhile is_digit r, dropWhile is_digit r)
          else None)"

definition scan_frac :: "string \<Rightarrow> string \<times> string" where
  "scan_frac s =
     (case s of
        c # d # r \<Rightarrow>
          if c = CHR ''.'' \<and> is_digit d then (d # takeWhile is_digit r, dropWhile is_digit r)
          else ([], s)
      | _ \<Rightarrow> ([], s))"

definition scan_exp :: "string \<Rightarrow> int option \<times> string" where
  "scan_exp s =
     (case s of
        [] \<Rightarrow> (None, s)
      | c # r \<Rightarrow>
          if c = CHR ''e'' \<or> c = CHR ''E'' then
            (let neg = (r \<noteq> [] \<and> hd r = CHR ''-'');
                 r1 = (if r \<noteq> [] \<and> (hd r = CHR ''-'' \<or> hd r = CHR ''+'') then tl r else r)
             in if r1 \<noteq> [] \<and> is_digit (hd r1) then
                  (Some ((if neg then - 1 else 1) * int (nat_of_digits (takeWhile is_digit r1))),
                   dropWhile is_digit r1)
                else (None, s))
          else (None, s))"

text \<open>
  \<open>float\<close> of a decimal text with the digits of \<open>m\<close> and the exponent \<open>e\<close>: the
  float that this decimal number names, with the zeros at its end moved into the
  exponent.
\<close>

function strip_zeros :: "nat \<Rightarrow> int \<Rightarrow> nat \<times> int" where
  "strip_zeros m e =
     (if 0 < m \<and> m mod 10 = 0 then strip_zeros (m div 10) (e + 1) else (m, e))"
  by pat_completeness auto
termination
  by (relation "measure (\<lambda>(m, e). m)") auto

declare strip_zeros.simps [simp del]

definition float_of_decimal :: "bool \<Rightarrow> nat \<Rightarrow> int \<Rightarrow> pyfloat" where
  "float_of_decimal neg m e =
     (if m = 0 then Zero neg
      else (let (m', e') = strip_zeros m e
            in Finite neg (m' div 10) (nz_of (m' mod 10)) e'))"

definition scan_constant :: "string \<Rightarrow> (jval \<times> string) option" where
  "scan_constant s =
     (if take 3 s = ''NaN'' then Some (JFloat NaN, drop 3 s)
      else if take 8 s = ''Infinity'' then Some (JFloat (Infinity False), drop 8 s)
      else if take 9 s = ''-Infinity'' then Some (JFloat (Infinity True), drop 9 s)
      else None)"

definition scan_number :: "string \<Rightarrow> (jval \<times> string) option" where
  "scan_number s =
     (let neg = (s \<noteq> [] \<and> hd s = CHR ''-'');
          s1 = (if neg then tl s else s)
      in case scan_int_part s1 of
           None \<Rightarrow> scan_constant s
         | Some (ids, r) \<Rightarrow>
             (let (fds, r1) = scan_frac r;
                  (ex, r2) = scan_exp r1
              in if fds = [] \<and> ex = None then
                   Some (JInt ((if neg then - 1 else 1) * int (nat_of_digits ids)), r2)
                 else
                   Some (JFloat (float_of_decimal neg (nat_of_digits (ids @ fds))
                                   ((case ex of None \<Rightarrow> 0 | Some x \<Rightarrow> x) - int (length fds))),
                         r2)))"

fun parse_value :: "nat \<Rightarrow> string \<Rightarrow> (jval \<times> string) option"
  and parse_array :: "nat \<Rightarrow> string \<Rightarrow> (jval list \<times> string) option" where
  "parse_value 0 s = None"
| "parse_value (Suc n) s =
     (case s of
        [] \<Rightarrow> None
      | c # r \<Rightarrow>
          if c = CHR ''['' then
            (case skip_ws r of
               [] \<Rightarrow> None
             | d # r' \<Rightarrow>
                 if d = CHR '']'' then Some (JList [], r')
                 else (case parse_array n (d # r') of
                         None \<Rightarrow> None
                       | Some (vs, r'') \<Rightarrow> Some (JList vs, r'')))
          else scan_number s)"
| "parse_array 0 s = None"
| "parse_array (Suc n) s =
     (case parse_value n s of
        None \<Rightarrow> None
      | Some (v, r) \<Rightarrow>
          (case skip_ws r of
             [] \<Rightarrow> None
           | d # r' \<Rightarrow>
               if d = CHR '']'' then Some ([v], r')
               else if d = CHR '','' then
                 (case parse_array n (skip_ws r') of
                    None \<Rightarrow> None
                  | Some (vs, r'') \<Rightarrow> Some (v # vs, r''))
               else None))"

definition json_loads :: "string \<Rightarrow> jval option" where
  "json_loads s =
     (case parse_value (length s) (skip_ws s) of
        None \<Rightarrow> None
      | Some (v, r) \<Rightarrow> if skip_ws r = [] then Some v else None)"

text \<open>
  The number of lists and list items of a nested list. The decoder needs more fuel
  than this for the text of the list, and the text is longer than this.
\<close>

fun nodes :: "jval \<Rightarrow> nat" where
  "nodes (JInt i) = 0"
| "nodes (JFloat x) = 0"
| "nodes (JList xs) = Suc (sum_list (map (\<lambda>x. Suc (nodes x)) xs))"

text \<open>
  What may follow a number in a JSON text without becoming part of it: anything but a
  digit, a point and the letter of the exponent.
\<close>

definition number_char :: "char \<Rightarrow> bool" where
  "number_char c = (is_digit c \<or> c = CHR ''.'' \<or> c = CHR ''e'' \<or> c = CHR ''E'')"

definition follow :: "string \<Rightarrow> bool" where
  "follow rest = (rest = [] \<or> \<not> number_char (hd rest))"

text \<open>
  \<open>str\<close> of a dictionary of strings is \<open>{k: v, ...}\<close> with \<open>repr\<close> of every key and
  value. \<open>repr\<close> of a string picks the double quote when the string holds a single
  quote and no double quote; it escapes the quote and the backslash, writes tab,
  newline and carriage return as \<open>\\t\<close>, \<open>\\n\<close>, \<open>\\r\<close>, copies a printable
  character, and writes any other character as \<open>\\xhh\<close>, \<open>\\uhhhh\<close> or
  \<open>\\Uhhhhhhhh\<close> by the size of its code point. Below 256 the printable characters
  are 32 to 126 and 161 to 255 without 173.
\<close>

definition hex_digit :: "nat \<Rightarrow> char" where
  "hex_digit d = ''0123456789abcdef'' ! d"

fun hex :: "nat \<Rightarrow> nat \<Rightarrow> string" where
  "hex 0 n = []"
| "hex (Suc w) n = hex w (n div 16) @ [hex_digit (n mod 16)]"

definition printable_below_256 :: "nat \<Rightarrow> bool" where
  "printable_below_256 n = ((32 \<le> n \<and> n < 127) \<or> (161 \<le> n \<and> n < 256 \<and> n \<noteq> 173))"

definition escape :: "nat \<Rightarrow> pystr" where
  "escape cp =
     (if cp < 256 then py ([CHR 0x5C, CHR ''x''] @ hex 2 cp)
      else if cp < 65536 then py ([CHR 0x5C, CHR ''u''] @ hex 4 cp)
      else py ([CHR 0x5C, CHR ''U''] @ hex 8 cp))"

fun repr_char :: "pychar \<Rightarrow> pychar \<Rightarrow> pystr" where
  "repr_char q (Chr c) =
     (if Chr c = q \<or> c = CHR 0x5C then [Chr (CHR 0x5C), Chr c]
      else if c = CHR 0x09 then py [CHR 0x5C, CHR ''t'']
      else if c = CHR 0x0A then py [CHR 0x5C, CHR ''n'']
      else if c = CHR 0x0D then py [CHR 0x5C, CHR ''r'']
      else if printable_below_256 (of_char c) then [Chr c]
      else escape (of_char c))"
| "repr_char q (Wide cp printable) = (if printable then [Wide cp printable] else escape cp)"

definition repr_str :: "pystr \<Rightarrow> pystr" where
  "repr_str s =
     (let q = (if Chr (CHR 0x27) \<in> set s \<and> Chr (CHR 0x22) \<notin> set s
               then Chr (CHR 0x22) else Chr (CHR 0x27))
      in q # concat (map (repr_char q) s) @ [q])"

definition str_dict :: "(pystr \<times> pystr) list \<Rightarrow> pystr" where
  "str_dict d =
     py ''{'' @ join (py '', '') (map (\<lambda>(k, v). repr_str k @ py '': '' @ repr_str v) d)
     @ py ''}''"

section \<open>The store (\<open>populate_database\<close> in database.py)\<close>

text \<open>
  The four tables that \<open>populate_database\<close> creates, each as the list of its rows in
  rowid order, with the columns of the \<open>CREATE TABLE\<close> statements. SQLite does not
  enforce the \<open>FOREIGN KEY\<close> clauses unless asked to, so they put no constraint on
  the type. The three JSON columns hold ASCII text; the reference column holds the
  Python string that \<open>str\<close> returns.
\<close>

record result_row =
  result_id :: int
  system_id :: int
  collaboration_id :: int
  observable_id :: int
  centrality_bins_col :: string
  value_col :: string
  error_col :: string
  reference_col :: pystr

record database =
  systems :: "(int \<times> string) list"
  collaborations :: "(int \<times> string) list"
  observables :: "(int \<times> string) list"
  experimental_results :: "result_row list"

text \<open>
  The database file \<open>experimental_data.db\<close>, as \<open>sqlite3.connect\<close> opens it:
  \<open>None\<close> is a file without tables, which is also what \<open>connect\<close> creates when
  there is no file; \<open>Some db\<close> is a file in which the four
  \<open>CREATE TABLE IF NOT EXISTS\<close> statements have run. The repository has no other
  statement that creates or drops a table. \<open>create_tables\<close> is the effect of these
  four statements on the file.
\<close>

definition create_tables :: "database option \<Rightarrow> database" where
  "create_tables file =
     (case file of
        None \<Rightarrow>
          \<lparr> systems = [], collaborations = [], observables = [], experimental_results = [] \<rparr>
      | Some db \<Rightarrow> db)"

text \<open>
  An \<open>INTEGER PRIMARY KEY\<close> that the \<open>INSERT\<close> leaves out is one more than the largest
  key in the table, and 1 in an empty table; the new row is then the last in rowid
  order. Keys are signed 64-bit integers. When the largest key is \<open>2^63 - 1\<close>, SQLite
  draws keys at random until it finds an unused one, and raises \<open>SQLITE_FULL\<close> when it
  finds none; the draw is not modelled, and \<open>None\<close> stands for this case.
\<close>

definition max_rowid :: int where
  "max_rowid = 9223372036854775807"

fun next_rowid :: "int list \<Rightarrow> int option" where
  "next_rowid [] = Some 1"
| "next_rowid (i # ids) =
     (if fold max ids i < max_rowid then Some (fold max ids i + 1) else None)"

definition database_full :: py_error where
  "database_full = OperationalError ''database or disk is full''"

text \<open>\<open>INSERT OR IGNORE\<close> with an explicit key: nothing happens when the key exists.\<close>

definition insert_or_ignore ::
  "int \<times> string \<Rightarrow> (int \<times> string) list \<Rightarrow> (int \<times> string) list" where
  "insert_or_ignore row tbl =
     (if fst row \<in> fst ` set tbl then tbl else insort_key fst row tbl)"

definition fetchone :: "'a list \<Rightarrow> 'a option" where
  "fetchone rows = (case rows of [] \<Rightarrow> None | r # _ \<Rightarrow> Some r)"

text \<open>\<open>SELECT observable_id FROM observables WHERE observable_name = ?\<close>: a table scan.\<close>

definition select_observable_id :: "(int \<times> string) list \<Rightarrow> string \<Rightarrow> int list" where
  "select_observable_id tbl nm = map fst (filter (\<lambda>row. snd row = nm) tbl)"

text \<open>
  \<open>json.dumps(a.tolist())\<close> for an argument \<open>a\<close> of the constructor. A numpy array
  of numbers gives the JSON text of its nested list. A list has no \<open>tolist\<close>. An
  array of objects gives the list of the objects, which \<open>json.dumps\<close> refuses at the
  first one; without objects the text is \<open>[]\<close>.
\<close>

definition quoted :: "string \<Rightarrow> string" where
  "quoted s = [CHR 0x27] @ s @ [CHR 0x27]"

fun tolist_dumps :: "array_arg \<Rightarrow> py_error + string" where
  "tolist_dumps (NdArray v) = Inr (json_dumps v)"
| "tolist_dumps (ObjectArray ty n) =
     (if n = 0 then Inr ''[]''
      else Inl (TypeError (''Object of type '' @ ty @ '' is not JSON serializable'')))"
| "tolist_dumps (PlainList v) =
     Inl (AttributeError (quoted ''list'' @ '' object has no attribute '' @ quoted ''tolist''))"

text \<open>
  The nested function of \<open>populate_database\<close>: an unconditional \<open>INSERT\<close> into
  \<open>observables\<close>, the \<open>SELECT\<close> of the id by name with \<open>fetchone()[0]\<close>, and the
  \<open>INSERT\<close> of the fact row with the literal ids 1 and 1. Python evaluates the
  arguments of the second \<open>INSERT\<close> from left to right before the statement runs, so
  the three arrays are encoded in the order \<open>centrality_bins\<close>, \<open>values\<close>,
  \<open>errors\<close>, after the row of \<open>observables\<close> is written. The function runs where the
  tables exist. An exception leaves \<open>populate_database\<close> before its \<open>commit\<close>, so
  no row of the run reaches the file; the result is then the exception alone.
\<close>

definition insert_integrated_observable_data ::
  "database \<Rightarrow> 'v observable \<Rightarrow> py_error + database" where
  "insert_integrated_observable_data db obs =
     (case next_rowid (map fst (observables db)) of
        None \<Rightarrow> Inl database_full
      | Some k \<Rightarrow>
          (let obs_tbl = observables db @ [(k, short_name obs)]
           in case fetchone (select_observable_id obs_tbl (short_name obs)) of
                None \<Rightarrow> Inl (TypeError (quoted ''NoneType'' @ '' object is not subscriptable''))
              | Some oid \<Rightarrow>
                  (case tolist_dumps (centrality_bins obs) of
                     Inl err \<Rightarrow> Inl err
                   | Inr c \<Rightarrow>
                       (case tolist_dumps (values_of obs) of
                          Inl err \<Rightarrow> Inl err
                        | Inr v \<Rightarrow>
                            (case tolist_dumps (errors obs) of
                               Inl err \<Rightarrow> Inl err
                             | Inr e \<Rightarrow>
                                 (case next_rowid (map result_id (experimental_results db)) of
                                    None \<Rightarrow> Inl database_full
                                  | Some rid \<Rightarrow>
                                      Inr (db \<lparr> observables := obs_tbl,
                                                experimental_results :=
                                                  experimental_results db @
                                                  [\<lparr> result_id = rid,
                                                     system_id = 1,
                                                     collaboration_id = 1,
                                                     observable_id = oid,
                                                     centrality_bins_col = c,
                                                     value_col = v,
                                                     error_col = e,
                                                     reference_col = str_dict (reference obs)
                                                   \<rparr>] \<rparr>)))))))"

text \<open>
  \<open>populate_database\<close> on the file: the \<open>CREATE TABLE\<close> statements, the two default
  rows, then the insertion of \<open>dNch_deta\<close>. The module never binds that name (the
  source says "Assuming dNch_deta is defined"), so the entity is an argument here.
\<close>

definition populate_database ::
  "database option \<Rightarrow> 'v observable \<Rightarrow> py_error + database" where
  "populate_database file dNch_deta =
     (let db = create_tables file
      in insert_integrated_observable_data
           (db \<lparr> systems := insert_or_ignore (1, ''Pb-Pb-2760'') (systems db),
                  collaborations := insert_or_ignore (1, ''ALICE'') (collaborations db) \<rparr>)
           dNch_deta)"

text \<open>
  Several calls of the nested function in turn, as a \<open>populate_database\<close> that
  inserts more than one entity makes them; an exception ends the sequence.
\<close>

fun insert_each :: "database \<Rightarrow> 'v observable list \<Rightarrow> py_error + database" where
  "insert_each db [] = Inr db"
| "insert_each db (obs # rest) =
     (case insert_integrated_observable_data db obs of
        Inl e \<Rightarrow> Inl e
      | Inr db' \<Rightarrow> insert_each db' rest)"

text \<open>
  The fact row that the \<open>INSERT\<close> of \<open>insert_integrated_observable_data\<close> writes,
  given the result id, the observable id, the nested lists of the three arrays and the
  reference dictionary.
\<close>

definition fact_row ::
  "int \<Rightarrow> int \<Rightarrow> jval \<Rightarrow> jval \<Rightarrow> jval \<Rightarrow> (pystr \<times> pystr) list \<Rightarrow> result_row" where
  "fact_row rid oid bins vals errs ref =
     \<lparr> result_id = rid, system_id = 1, collaboration_id = 1, observable_id = oid,
       centrality_bins_col = json_dumps bins,
       value_col = json_dumps vals,
       error_col = json_dumps errs,
       reference_col = str_dict ref \<rparr>"

text \<open>
  The condition under which \<open>next_rowid\<close> is SQLite's choice of key for both
  tables that the insertion writes.
\<close>

definition rowids_below_max :: "database \<Rightarrow> bool" where
  "rowids_below_max db =
     (list_all (\<lambda>ob. fst ob < max_rowid) (observables db) \<and>
      list_all (\<lambda>r. result_id r < max_rowid) (experimental_results db))"

section \<open>The query (query_and_plot.py)\<close>

text \<open>
  The rows of the \<open>SELECT\<close> of \<open>query_observables\<close> where the tables exist: the join
  of \<open>experimental_results\<close> with \<open>observables\<close> on the observable id, restricted
  to the name. The statement has no \<open>ORDER BY\<close>; the rows come in the order of
  SQLite's nested loop, with the fact table outside and the lookup of the observable
  by its key inside.
\<close>

definition select_results ::
  "database \<Rightarrow> string \<Rightarrow> (string \<times> string \<times> string \<times> pystr) list" where
  "select_results db nm =
     concat (map (\<lambda>r.
        map (\<lambda>ob. (centrality_bins_col r, value_col r, error_col r, reference_col r))
          (filter (\<lambda>ob. observable_id r = fst ob \<and> snd ob = nm) (observables db)))
       (experimental_results db))"

text \<open>
  \<open>cursor.execute\<close> of that statement on the file. \<open>query_and_plot.py\<close> creates no
  table: on a file without tables the statement raises \<open>sqlite3.OperationalError\<close>,
  and SQLite names the first table of the \<open>FROM\<close> clause.
\<close>

definition execute_select ::
  "database option \<Rightarrow> string \<Rightarrow> py_error + (string \<times> string \<times> string \<times> pystr) list" where
  "execute_select file nm =
     (case file of
        None \<Rightarrow> Inl (OperationalError ''no such table: experimental_results'')
      | Some db \<Rightarrow> Inr (select_results db nm))"

text \<open>
  The names that query_and_plot.py binds at module level: its three imports and its
  four functions. \<open>json\<close> is not among them and is not a builtin, so evaluating
  \<open>json.loads\<close> raises \<open>NameError\<close>.
\<close>

definition module_names :: "string list" where
  "module_names =
     [''sqlite3'', ''plt'', ''np'', ''connect_to_database'', ''query_observables'',
      ''plot_integrated_observable'', ''plot_differential_observable'']"

definition lookup_global :: "string \<Rightarrow> py_error + unit" where
  "lookup_global x = (if x \<in> set module_names then Inr () else Inl (NameError x))"

text \<open>
  \<open>np.array(json.loads(text))\<close>. \<open>JSONDecodeError\<close> is a subclass of \<open>ValueError\<close>.
\<close>

definition decode :: "string \<Rightarrow> py_error + jval" where
  "decode s =
     (case lookup_global ''json'' of
        Inl e \<Rightarrow> Inl e
      | Inr _ \<Rightarrow>
          (case json_loads s of
             None \<Rightarrow> Inl (ValueError ''JSONDecodeError'')
           | Some v \<Rightarrow> Inr v))"

definition query_observables ::
  "database option \<Rightarrow> string \<Rightarrow> py_error + (jval \<times> jval \<times> jval \<times> pystr)" where
  "query_observables cursor observable_name =
     (case execute_select cursor observable_name of
        Inl err \<Rightarrow> Inl err
      | Inr rows \<Rightarrow>
          (case fetchone rows of
             Some (c, v, e, r) \<Rightarrow>
               (case decode c of
                  Inl err \<Rightarrow> Inl err
                | Inr centrality \<Rightarrow>
                    (case decode v of
                       Inl err \<Rightarrow> Inl err
                     | Inr vals \<Rightarrow>
                         (case decode e of
                            Inl err \<Rightarrow> Inl err
                          | Inr errs \<Rightarrow> Inr (centrality, vals, errs, r))))
           | None \<Rightarrow>
               Inl (ValueError (''No data found for observable: '' @ observable_name))))"

text \<open>
  The \<open>try\<close> block of \<open>__main__\<close>: the query, then the plots, with
  \<open>except ValueError as e: print(e)\<close>. Any other exception leaves the block. The
  plotting itself is not modelled.
\<close>

datatype outcome =
    Plotted "jval \<times> jval \<times> jval \<times> pystr"
  | Printed string
  | Uncaught py_error

definition main_try :: "database option \<Rightarrow> string \<Rightarrow> outcome" where
  "main_try file observable_name =
     (case query_observables file observable_name of
        Inr res \<Rightarrow> Plotted res
      | Inl (ValueError msg) \<Rightarrow> Printed msg
      | Inl e \<Rightarrow> Uncaught e)"

definition main :: "database option \<Rightarrow> outcome" where
  "main file = main_try file ''mean_pT_pion''"

section \<open>The usage examples of database.py\<close>

definition centrality_classes :: jval where
  "centrality_classes =
     JList [JList [JInt 0, JInt 5], JList [JInt 5, JInt 10], JList [JInt 10, JInt 20],
            JList [JInt 20, JInt 30], JList [JInt 30, JInt 40], JList [JInt 40, JInt 50],
            JList [JInt 50, JInt 60], JList [JInt 60, JInt 70], JList [JInt 70, JInt 80]]"

definition ALICE_cent_bins :: array_arg where
  "ALICE_cent_bins = NdArray centrality_classes"

definition STAR_cent_bins :: array_arg where
  "STAR_cent_bins = NdArray centrality_classes"

text \<open>The data, the dictionaries and the keyword arguments of the first example.\<close>

definition alice_values :: jval where
  "alice_values =
     JList [JInt 1601, JInt 1294, JInt 966, JInt 649, JInt 426, JInt 261, JInt 149, JInt 76,
            JInt 35]"

definition alice_errors :: jval where
  "alice_errors =
     JList [JInt 60, JInt 49, JInt 37, JInt 23, JInt 15, JInt 9, JInt 6, JInt 4, JInt 2]"

definition alice_reference :: "(pystr \<times> pystr) list" where
  "alice_reference =
     [(py ''arXiv'', py ''arxiv:1012.1657''),
      (py ''doi'', py ''10.1103/PhysRevLett.106.032301''),
      (py ''title'', py (''Centrality dependence of the charged-particle multiplicity density ''
         @ ''at mid-rapidity in Pb-Pb collisions at $'' @ [CHR 0x5C]
         @ ''sqrt{s_{NN}}=2.76$ TeV''))]"

definition alice_trigger_info :: "(string \<times> string) list" where
  "alice_trigger_info =
     [(''Trigger'', ''VZERO and SPD detectors''), (''Centrality Selection'', ''VOM amplitude'')]"

definition alice_ch_mult_kwargs :: "string \<rightharpoonup> pyval" where
  "alice_ch_mult_kwargs =
     [''particle_type'' \<mapsto> PyStr ''charged'',
      ''rapidity_range'' \<mapsto> PyList [PyFloat ''-0.5'', PyFloat ''0.5''],
      ''pT_range'' \<mapsto> PyList [PyFloat ''0.2'', PyFloat ''5.0'']]"

text \<open>
  The call of the first example with other data or other keyword arguments, and the
  object that the example builds.
\<close>

definition alice_init ::
  "array_arg \<Rightarrow> array_arg \<Rightarrow> (string \<rightharpoonup> pyval) \<Rightarrow> py_error + pyval observable" where
  "alice_init vals errs kwargs =
     init Multiplicity ''Charged-particle multiplicity'' ''dNch_deta'' ''Pb-Pb-2760'' ''ALICE''
       alice_reference ALICE_cent_bins vals errs alice_trigger_info kwargs"

definition alice_ch_mult :: "pyval observable" where
  "alice_ch_mult =
     \<lparr> cls = Multiplicity,
       name = ''Charged-particle multiplicity'',
       short_name = ''dNch_deta'',
       collision_system = ''Pb-Pb-2760'',
       collaboration = ''ALICE'',
       reference = alice_reference,
       centrality_bins = ALICE_cent_bins,
       values_of = NdArray alice_values,
       errors = NdArray alice_errors,
       trigger_info = alice_trigger_info,
       params = [(''particle_type'', PyStr ''charged''),
                 (''rapidity_range'', PyList [PyFloat ''-0.5'', PyFloat ''0.5'']),
                 (''pT_range'', PyList [PyFloat ''0.2'', PyFloat ''5.0''])] \<rparr>"

text \<open>
  The second example, of the STAR collaboration. The source leaves its data open
  (\<open>np.array([...])\<close>, "Replace with real data"), so the two arrays are arguments.
\<close>

definition star_reference :: "(pystr \<times> pystr) list" where
  "star_reference =
     [(py ''arXiv'', py ''arXiv:0808.2041''),
      (py ''doi'', py ''10.1103/PhysRevC.79.034909''),
      (py ''title'', py (''Systematic Measurements of Identified Particle Spectra in ''
         @ ''$p p, d^+$ Au and Au+Au Collisions from STAR''))]"

definition star_trigger_info :: "(string \<times> string) list" where
  "star_trigger_info =
     [(''Trigger'', ''BBC and TOF detectors''),
      (''Centrality Selection'', ''Charged particle multiplicity'')]"

definition star_pion_mult_kwargs :: "string \<rightharpoonup> pyval" where
  "star_pion_mult_kwargs =
     [''particle_type'' \<mapsto> PyStr ''pion'',
      ''rapidity_range'' \<mapsto> PyList [PyFloat ''-1.0'', PyFloat ''1.0''],
      ''pT_range'' \<mapsto> PyList [PyFloat ''0.2'', PyFloat ''3.0'']]"

definition star_pion_mult :: "array_arg \<Rightarrow> array_arg \<Rightarrow> pyval observable" where
  "star_pion_mult vals errs =
     \<lparr> cls = Multiplicity,
       name = ''Identified pion multiplicity'',
       short_name = ''dNch_deta_pion'',
       collision_system = ''Au-Au-200'',
       collaboration = ''STAR'',
       reference = star_reference,
       centrality_bins = STAR_cent_bins,
       values_of = vals,
       errors = errs,
       trigger_info = star_trigger_info,
       params = [(''particle_type'', PyStr ''pion''),
                 (''rapidity_range'', PyList [PyFloat ''-1.0'', PyFloat ''1.0'']),
                 (''pT_range'', PyList [PyFloat ''0.2'', PyFloat ''3.0''])] \<rparr>"

text \<open>The placeholder \<open>np.array([...])\<close>: an array of one \<open>Ellipsis\<close> object.\<close>

definition ellipsis_array :: array_arg where
  "ellipsis_array = ObjectArray ''ellipsis'' 1"

text \<open>The keyword arguments of the third example without \<open>harmonic_n\<close>.\<close>

definition alice_v2_int_kwargs_no_harmonic :: "string \<rightharpoonup> pyval" where
  "alice_v2_int_kwargs_no_harmonic =
     [''rapidity_range'' \<mapsto> PyList [PyFloat ''-0.8'', PyFloat ''0.8''],
      ''pT_range'' \<mapsto> PyList [PyFloat ''0.2'', PyFloat ''5.0'']]"

text \<open>
  The first example measured for two other particle types: two more objects that the
  constructor builds.
\<close>

definition pion_kwargs :: "string \<rightharpoonup> pyval" where
  "pion_kwargs = alice_ch_mult_kwargs(''particle_type'' \<mapsto> PyStr ''pion'')"

definition alice_pion_mult :: "pyval observable" where
  "alice_pion_mult =
     alice_ch_mult \<lparr> params := [(''particle_type'', PyStr ''pion''),
                                (''rapidity_range'', PyList [PyFloat ''-0.5'', PyFloat ''0.5'']),
                                (''pT_range'', PyList [PyFloat ''0.2'', PyFloat ''5.0''])] \<rparr>"

definition kaon_kwargs :: "string \<rightharpoonup> pyval" where
  "kaon_kwargs = alice_ch_mult_kwargs(''particle_type'' \<mapsto> PyStr ''kaon'')"

definition alice_kaon_mult :: "pyval observable" where
  "alice_kaon_mult =
     alice_ch_mult \<lparr> params := [(''particle_type'', PyStr ''kaon''),
                                (''rapidity_range'', PyList [PyFloat ''-0.5'', PyFloat ''0.5'']),
                                (''pT_range'', PyList [PyFloat ''0.2'', PyFloat ''5.0''])] \<rparr>"

text \<open>
  The store after \<open>populate_database\<close> has run once and twice with the first example,
  and the store after two insertions under one short name with different values.
\<close>

definition db_run1 :: database where
  "db_run1 =
     \<lparr> systems = [(1, ''Pb-Pb-2760'')], collaborations = [(1, ''ALICE'')],
       observables = [(1, ''dNch_deta'')],
       experimental_results =
         [fact_row 1 1 centrality_classes alice_values alice_errors alice_reference] \<rparr>"

definition db_run2 :: database where
  "db_run2 =
     \<lparr> systems = [(1, ''Pb-Pb-2760'')], collaborations = [(1, ''ALICE'')],
       observables = [(1, ''dNch_deta''), (2, ''dNch_deta'')],
       experimental_results =
         [fact_row 1 1 centrality_classes alice_values alice_errors alice_reference,
          fact_row 2 1 centrality_classes alice_values alice_errors alice_reference] \<rparr>"

definition db_two_rows :: database where
  "db_two_rows =
     \<lparr> systems = [], collaborations = [],
       observables = [(1, ''dNch_deta''), (2, ''dNch_deta'')],
       experimental_results =
         [fact_row 1 1 centrality_classes alice_values alice_errors alice_reference,
          fact_row 2 1 centrality_classes (JList [JInt 1584]) alice_errors alice_reference] \<rparr>"

section \<open>The constructor\<close>

lemma set_required_present:
  "set ps \<subseteq> dom kwargs \<Longrightarrow>
   set_required c ps kwargs = Inr (map (\<lambda>p. (p, the (kwargs p))) ps)"
  by (induction ps) (auto split: option.splits)

lemma set_required_missing:
  "set present \<subseteq> dom kwargs \<Longrightarrow> kwargs p = None \<Longrightarrow>
   set_required c (present @ p # rest) kwargs =
     Inl (ValueError (''Missing required parameter: '' @ p @ '' for '' @ c))"
  by (induction present) (auto split: option.splits)

lemma set_required_cong:
  "(\<forall>p \<in> set ps. kwargs' p = kwargs p) \<Longrightarrow>
   set_required c ps kwargs' = set_required c ps kwargs"
  by (induction ps) (auto split: option.splits)

lemma first_missing:
  assumes "\<not> set ps \<subseteq> dom kwargs"
  shows "\<exists>present p rest.
           ps = present @ p # rest \<and> set present \<subseteq> dom kwargs \<and> kwargs p = None"
proof -
  from assms have "\<exists>p \<in> set ps. kwargs p = None" by (auto simp: dom_def)
  then obtain present p rest where
    "ps = present @ p # rest" "kwargs p = None" "\<forall>q \<in> set present. kwargs q \<noteq> None"
    by (auto dest!: split_list_first_prop)
  then show ?thesis by (auto simp: dom_def)
qed

lemma alice_kwargs_complete: "set (required_params Multiplicity) \<subseteq> dom alice_ch_mult_kwargs"
  by (simp add: alice_ch_mult_kwargs_def)

text \<open>
  C3. When a parameter that the class requires is not among the keyword arguments, the
  constructor raises \<open>ValueError\<close>, and the message names the first such parameter in
  the order of \<open>required_params\<close>: every parameter before it is present. The
  constructor takes no store and returns none, so nothing is written.
\<close>

theorem init_missing_required:
  assumes "\<not> set (required_params k) \<subseteq> dom kwargs"
  shows "\<exists>present p rest.
           required_params k = present @ p # rest \<and>
           set present \<subseteq> dom kwargs \<and> p \<notin> dom kwargs \<and>
           init k nm sn sys coll ref bins vals errs trig kwargs =
             Inl (ValueError (''Missing required parameter: '' @ p @ '' for '' @ class_name k))"
proof -
  from first_missing [OF assms] obtain present p rest where
    d: "required_params k = present @ p # rest" "set present \<subseteq> dom kwargs" "kwargs p = None"
    by blast
  from d(2,3) have "set_required (class_name k) (present @ p # rest) kwargs =
      Inl (ValueError (''Missing required parameter: '' @ p @ '' for '' @ class_name k))"
    by (rule set_required_missing)
  with d show ?thesis by (auto simp: init_def dom_def)
qed

text \<open>The third example without \<open>harmonic_n\<close>: the error names \<open>harmonic_n\<close>.\<close>

theorem init_missing_required_witness:
  "\<not> set (required_params IntegratedVn2) \<subseteq> dom alice_v2_int_kwargs_no_harmonic \<and>
   init IntegratedVn2 ''Elliptic flow coefficient v2{2}'' ''v22'' ''Pb-Pb-2760'' ''ALICE''
      [(py ''arXiv'', py ''arXiv:1105.3865'')] ALICE_cent_bins ellipsis_array ellipsis_array
      [(''Trigger'', ''TPC and VZERO detectors'')] alice_v2_int_kwargs_no_harmonic
   = Inl (ValueError ''Missing required parameter: harmonic_n for IntegratedVn2'')"
proof -
  have h: "\<not> set (required_params IntegratedVn2) \<subseteq> dom alice_v2_int_kwargs_no_harmonic"
    by (simp add: alice_v2_int_kwargs_no_harmonic_def)
  from init_missing_required [OF h, of "''Elliptic flow coefficient v2{2}''" "''v22''"
      "''Pb-Pb-2760''" "''ALICE''" "[(py ''arXiv'', py ''arXiv:1105.3865'')]" ALICE_cent_bins
      ellipsis_array ellipsis_array "[(''Trigger'', ''TPC and VZERO detectors'')]"]
  obtain present p rest where
    d: "required_params IntegratedVn2 = present @ p # rest"
       "set present \<subseteq> dom alice_v2_int_kwargs_no_harmonic"
       "p \<notin> dom alice_v2_int_kwargs_no_harmonic"
       "init IntegratedVn2 ''Elliptic flow coefficient v2{2}'' ''v22'' ''Pb-Pb-2760'' ''ALICE''
          [(py ''arXiv'', py ''arXiv:1105.3865'')] ALICE_cent_bins ellipsis_array ellipsis_array
          [(''Trigger'', ''TPC and VZERO detectors'')] alice_v2_int_kwargs_no_harmonic
        = Inl (ValueError (''Missing required parameter: '' @ p @ '' for ''
                 @ class_name IntegratedVn2))"
    by blast
  have "p \<in> set (required_params IntegratedVn2)" using d(1) by simp
  with d(3) have "p = ''harmonic_n''"
    by (auto simp: alice_v2_int_kwargs_no_harmonic_def)
  with d(4) h show ?thesis by simp
qed

text \<open>
  C4, as the code has it. The constructor compares no lengths: when every required
  parameter is present it succeeds, whatever the lengths of \<open>values\<close>, \<open>errors\<close>
  and \<open>centrality_bins\<close> are, and the object carries the three arrays as they were
  passed.
\<close>

theorem init_checks_no_lengths:
  assumes "set (required_params k) \<subseteq> dom kwargs"
  shows "init k nm sn sys coll ref bins vals errs trig kwargs =
           Inr \<lparr> cls = k, name = nm, short_name = sn, collision_system = sys,
                 collaboration = coll, reference = ref, centrality_bins = bins,
                 values_of = vals, errors = errs, trigger_info = trig,
                 params = map (\<lambda>p. (p, the (kwargs p))) (required_params k) \<rparr>"
  using assms by (simp add: init_def set_required_present)

text \<open>The first example with an empty array of errors.\<close>

theorem init_checks_no_lengths_witness:
  "set (required_params Multiplicity) \<subseteq> dom alice_ch_mult_kwargs \<and>
   init Multiplicity ''Charged-particle multiplicity'' ''dNch_deta'' ''Pb-Pb-2760'' ''ALICE''
     (reference alice_ch_mult) ALICE_cent_bins (values_of alice_ch_mult) (NdArray (JList []))
     (trigger_info alice_ch_mult) alice_ch_mult_kwargs
   = Inr (alice_ch_mult \<lparr> errors := NdArray (JList []) \<rparr>)"
proof -
  have h: "set (required_params Multiplicity) \<subseteq> dom alice_ch_mult_kwargs"
    by (rule alice_kwargs_complete)
  show ?thesis
    using h init_checks_no_lengths [OF h, of "''Charged-particle multiplicity''" "''dNch_deta''"
      "''Pb-Pb-2760''" "''ALICE''" "reference alice_ch_mult" ALICE_cent_bins
      "values_of alice_ch_mult" "NdArray (JList [])" "trigger_info alice_ch_mult"]
    by (simp add: alice_ch_mult_def alice_ch_mult_kwargs_def)
qed

text \<open>
  C4 as stated fails: nine centrality bins, two values and one error construct an
  object.
\<close>

theorem init_accepts_unequal_lengths:
  "py_len (NdArray (JList [JInt 1601, JInt 1294])) \<noteq> py_len ALICE_cent_bins \<and>
   py_len (NdArray (JList [JInt 60])) \<noteq> py_len (NdArray (JList [JInt 1601, JInt 1294])) \<and>
   init Multiplicity ''Charged-particle multiplicity'' ''dNch_deta'' ''Pb-Pb-2760'' ''ALICE''
     (reference alice_ch_mult) ALICE_cent_bins (NdArray (JList [JInt 1601, JInt 1294]))
     (NdArray (JList [JInt 60])) (trigger_info alice_ch_mult) alice_ch_mult_kwargs
   = Inr (alice_ch_mult \<lparr> values_of := NdArray (JList [JInt 1601, JInt 1294]),
                          errors := NdArray (JList [JInt 60]) \<rparr>)"
  by (simp add: ALICE_cent_bins_def centrality_classes_def init_def alice_ch_mult_def
      alice_ch_mult_kwargs_def)

text \<open>
  C9, as the code has it. The constructor reads the keyword arguments only at the names
  its class requires. When every required parameter is supplied, any further keyword
  arguments change nothing: the construction succeeds, and the object carries exactly
  the required parameters, each with the value supplied for it.
\<close>

theorem init_ignores_extra_kwargs:
  assumes "set (required_params k) \<subseteq> dom kwargs"
    and "dom extra \<inter> set (required_params k) = {}"
  shows "init k nm sn sys coll ref bins vals errs trig (kwargs ++ extra) =
           Inr \<lparr> cls = k, name = nm, short_name = sn, collision_system = sys,
                 collaboration = coll, reference = ref, centrality_bins = bins,
                 values_of = vals, errors = errs, trigger_info = trig,
                 params = map (\<lambda>p. (p, the (kwargs p))) (required_params k) \<rparr>"
proof -
  have "\<forall>p \<in> set (required_params k). (kwargs ++ extra) p = kwargs p"
  proof
    fix p assume "p \<in> set (required_params k)"
    with assms(2) have "p \<notin> dom extra" by blast
    then show "(kwargs ++ extra) p = kwargs p" by (simp add: map_add_dom_app_simps)
  qed
  then have "set_required (class_name k) (required_params k) (kwargs ++ extra)
               = set_required (class_name k) (required_params k) kwargs"
    by (rule set_required_cong)
  with assms(1) show ?thesis by (simp add: init_def set_required_present)
qed

text \<open>The first example with an additional \<open>harmonic_n=2\<close>.\<close>

theorem init_ignores_extra_kwargs_witness:
  "set (required_params Multiplicity) \<subseteq> dom alice_ch_mult_kwargs \<and>
   dom [''harmonic_n'' \<mapsto> PyInt 2] \<inter> set (required_params Multiplicity) = {} \<and>
   init Multiplicity ''Charged-particle multiplicity'' ''dNch_deta'' ''Pb-Pb-2760'' ''ALICE''
     (reference alice_ch_mult) ALICE_cent_bins (values_of alice_ch_mult) (errors alice_ch_mult)
     (trigger_info alice_ch_mult) (alice_ch_mult_kwargs ++ [''harmonic_n'' \<mapsto> PyInt 2])
   = Inr alice_ch_mult"
proof -
  have h: "set (required_params Multiplicity) \<subseteq> dom alice_ch_mult_kwargs"
    by (rule alice_kwargs_complete)
  have e: "dom [''harmonic_n'' \<mapsto> PyInt 2] \<inter> set (required_params Multiplicity) = {}"
    by simp
  show ?thesis
    using h e init_ignores_extra_kwargs [OF h e, of "''Charged-particle multiplicity''"
      "''dNch_deta''" "''Pb-Pb-2760''" "''ALICE''" "reference alice_ch_mult" ALICE_cent_bins
      "values_of alice_ch_mult" "errors alice_ch_mult" "trigger_info alice_ch_mult"]
    by (simp add: alice_ch_mult_def alice_ch_mult_kwargs_def)
qed

text \<open>
  C9 as stated fails: a \<open>Multiplicity\<close> built with the additional keyword argument
  \<open>harmonic_n=2\<close> is the object built without it, and has no such attribute.
\<close>

theorem init_drops_extra_kwarg:
  "''harmonic_n'' \<notin> set (required_params Multiplicity) \<and>
   (alice_ch_mult_kwargs(''harmonic_n'' \<mapsto> PyInt 2)) ''harmonic_n'' = Some (PyInt 2) \<and>
   init Multiplicity ''Charged-particle multiplicity'' ''dNch_deta'' ''Pb-Pb-2760'' ''ALICE''
     (reference alice_ch_mult) ALICE_cent_bins (values_of alice_ch_mult) (errors alice_ch_mult)
     (trigger_info alice_ch_mult) (alice_ch_mult_kwargs(''harmonic_n'' \<mapsto> PyInt 2))
   = Inr alice_ch_mult \<and>
   ''harmonic_n'' \<notin> fst ` set (params alice_ch_mult)"
  by (simp add: init_def alice_ch_mult_def alice_ch_mult_kwargs_def)

lemma alice_init_examples:
  "alice_init (NdArray alice_values) (NdArray alice_errors) alice_ch_mult_kwargs
     = Inr alice_ch_mult"
  "alice_init (NdArray alice_values) (NdArray alice_errors) pion_kwargs = Inr alice_pion_mult"
  "alice_init (NdArray alice_values) (NdArray alice_errors) kaon_kwargs = Inr alice_kaon_mult"
  by (simp_all add: alice_init_def init_def alice_ch_mult_def alice_pion_mult_def
      alice_kaon_mult_def alice_ch_mult_kwargs_def pion_kwargs_def kaon_kwargs_def)

section \<open>Decoding what \<open>json.dumps\<close> wrote\<close>

lemma of_char_digit_char: "d < 10 \<Longrightarrow> (of_char (digit_char d) :: nat) = 48 + d"
  by (simp add: digit_char_def)

lemma is_digit_digit_char: "d < 10 \<Longrightarrow> is_digit (digit_char d)"
  by (simp add: is_digit_def of_char_digit_char)

lemma digit_val_digit_char: "d < 10 \<Longrightarrow> digit_val (digit_char d) = d"
  by (simp add: digit_val_def of_char_digit_char)

lemma digit_char_eq_zero: "d < 10 \<Longrightarrow> digit_char d = CHR ''0'' \<longleftrightarrow> d = 0"
proof -
  assume d: "d < 10"
  have "digit_char d = CHR ''0'' \<longleftrightarrow> (of_char (digit_char d) :: nat) = of_char (CHR ''0'')"
    by (metis char_of_comp_of_char comp_apply id_apply)
  then show ?thesis using d by (simp add: of_char_digit_char)
qed

lemma str_nat_nonempty: "str_nat n \<noteq> []"
  by (induction n rule: str_nat.induct) (subst str_nat.simps, simp)

lemma str_nat_digits: "c \<in> set (str_nat n) \<Longrightarrow> is_digit c"
proof (induction n rule: str_nat.induct)
  case (1 n)
  show ?case
  proof (cases "n < 10")
    case True
    with "1.prems" show ?thesis by (subst (asm) str_nat.simps) (simp add: is_digit_digit_char)
  next
    case False
    with "1.prems" have "c \<in> set (str_nat (n div 10)) \<or> c = digit_char (n mod 10)"
      by (subst (asm) str_nat.simps) auto
    with False "1.IH" show ?thesis by (auto simp: is_digit_digit_char)
  qed
qed

lemma nat_of_digits_snoc: "nat_of_digits (ds @ [c]) = 10 * nat_of_digits ds + digit_val c"
  by (simp add: nat_of_digits_def)

lemma nat_of_digits_Nil: "nat_of_digits [] = 0"
  by (simp add: nat_of_digits_def)

lemma nat_of_digits_append:
  "nat_of_digits (a @ b) = nat_of_digits a * 10 ^ length b + nat_of_digits b"
proof (induction b rule: rev_induct)
  case Nil
  then show ?case by (simp add: nat_of_digits_Nil)
next
  case (snoc c b)
  have "nat_of_digits (a @ b @ [c]) = 10 * nat_of_digits (a @ b) + digit_val c"
    using nat_of_digits_snoc [of "a @ b" c] by simp
  with snoc show ?case by (simp add: nat_of_digits_snoc algebra_simps)
qed

lemma digit_val_zero: "digit_val (CHR ''0'') = 0"
  by (simp add: digit_val_def)

lemma is_digit_zero: "is_digit (CHR ''0'')"
  by (simp add: is_digit_def)

lemma nat_of_digits_zeros: "nat_of_digits (replicate k (CHR ''0'')) = 0"
proof (induction k)
  case 0
  then show ?case by (simp add: nat_of_digits_Nil)
next
  case (Suc k)
  have "replicate (Suc k) (CHR ''0'') = replicate k (CHR ''0'') @ [CHR ''0'']"
    by (simp add: replicate_append_same)
  with Suc show ?case by (simp only: nat_of_digits_snoc digit_val_zero)
qed

lemma nat_of_digits_leading_zeros:
  "nat_of_digits (replicate k (CHR ''0'') @ ds) = nat_of_digits ds"
  by (simp add: nat_of_digits_append nat_of_digits_zeros)

lemma nat_of_digits_trailing_zeros:
  "nat_of_digits (ds @ replicate k (CHR ''0'')) = nat_of_digits ds * 10 ^ k"
  by (simp add: nat_of_digits_append nat_of_digits_zeros)

lemma nat_of_digits_str_nat: "nat_of_digits (str_nat n) = n"
proof (induction n rule: str_nat.induct)
  case (1 n)
  show ?case
  proof (cases "n < 10")
    case True
    then show ?thesis by (subst str_nat.simps) (simp add: nat_of_digits_def digit_val_digit_char)
  next
    case False
    with "1.IH" show ?thesis
      by (subst str_nat.simps) (simp add: nat_of_digits_snoc digit_val_digit_char)
  qed
qed

lemma hd_str_nat_zero: "hd (str_nat n) = CHR ''0'' \<longleftrightarrow> n = 0"
proof (induction n rule: str_nat.induct)
  case (1 n)
  show ?case
  proof (cases "n < 10")
    case True
    then show ?thesis by (subst str_nat.simps) (simp add: digit_char_eq_zero)
  next
    case False
    then have "hd (str_nat n) = hd (str_nat (n div 10))"
      by (subst str_nat.simps) (simp add: str_nat_nonempty)
    with False "1.IH" show ?thesis by auto
  qed
qed

lemma takeWhile_digits:
  "\<forall>c \<in> set ds. is_digit c \<Longrightarrow> rest = [] \<or> \<not> is_digit (hd rest) \<Longrightarrow>
   takeWhile is_digit (ds @ rest) = ds \<and> dropWhile is_digit (ds @ rest) = rest"
proof (induction ds)
  case Nil
  then show ?case by (cases rest) auto
next
  case (Cons d ds)
  then show ?case by simp
qed

lemma str_nat_zero: "str_nat 0 = [CHR ''0'']"
  by (subst str_nat.simps) (simp add: digit_char_eq_zero)

lemma str_nat_pos:
  assumes "0 < n"
  obtains c ds where "str_nat n = c # ds" "c \<noteq> CHR ''0''" "is_digit c"
    "\<forall>x \<in> set ds. is_digit x" "nat_of_digits (c # ds) = n"
proof -
  obtain c ds where s: "str_nat n = c # ds"
    using str_nat_nonempty [of n] by (cases "str_nat n") auto
  have dig: "is_digit c" "\<forall>x \<in> set ds. is_digit x"
    using str_nat_digits [of _ n] s by auto
  from hd_str_nat_zero [of n] s assms have "c \<noteq> CHR ''0''" by auto
  moreover have "nat_of_digits (c # ds) = n"
    using nat_of_digits_str_nat [of n] s by simp
  ultimately show ?thesis using that s dig by blast
qed

lemma not_digit_chars:
  "\<not> is_digit (CHR ''.'')" "\<not> is_digit (CHR ''e'')" "\<not> is_digit (CHR ''-'')"
  "\<not> is_digit (CHR ''+'')" "\<not> is_digit (CHR ''I'')" "\<not> is_digit (CHR ''N'')"
  by (simp_all add: is_digit_def)

lemma nz_of_nz_val: "nz_of (nz_val d) = d"
  by (cases d) (simp_all add: nz_of_def)

lemma nz_val_bounds: "0 < nz_val d" "nz_val d < 10"
  by (cases d; simp)+

lemma nz_div_mod: "(10 * q + nz_val d) div 10 = q" "(10 * q + nz_val d) mod 10 = nz_val d"
  using nz_val_bounds [of d] by simp_all

lemma nz_val_mod: "nz_val d mod 10 = nz_val d"
  using nz_val_bounds [of d] by simp

lemma strip_zeros_pow:
  "m mod 10 \<noteq> 0 \<Longrightarrow> strip_zeros (m * 10 ^ k) (e - int k) = (m, e)"
proof (induction k arbitrary: e)
  case 0
  then show ?case by (subst strip_zeros.simps) simp
next
  case (Suc k)
  from Suc.prems have "0 < m" by (cases m) auto
  then have "strip_zeros (m * 10 ^ Suc k) (e - int (Suc k))
               = strip_zeros (m * 10 ^ k) (e - int (Suc k) + 1)"
    by (subst strip_zeros.simps) simp
  also have "e - int (Suc k) + 1 = e - int k" by simp
  finally show ?case using Suc.IH [OF Suc.prems] by simp
qed

lemma float_of_decimal_pow:
  "float_of_decimal neg ((10 * q + nz_val d) * 10 ^ k) (e - int k) = Finite neg q d e"
proof -
  have "(10 * q + nz_val d) mod 10 \<noteq> 0" using nz_val_bounds [of d] by (simp add: nz_div_mod)
  then have "strip_zeros ((10 * q + nz_val d) * 10 ^ k) (e - int k) = (10 * q + nz_val d, e)"
    by (rule strip_zeros_pow)
  moreover have "(10 * q + nz_val d) * 10 ^ k \<noteq> 0" using nz_val_bounds [of d] by simp
  ultimately show ?thesis
    by (simp add: float_of_decimal_def nz_div_mod nz_val_mod nz_of_nz_val)
qed

lemma float_of_decimal_nz:
  "float_of_decimal neg (10 * q + nz_val d) e = Finite neg q d e"
  using float_of_decimal_pow [of neg q d 0 e] by simp

lemma scan_int_part_zero: "scan_int_part (CHR ''0'' # r) = Some ([CHR ''0''], r)"
  by (simp add: scan_int_part_def)

lemma scan_int_part_digits:
  assumes "c \<noteq> CHR ''0''" "is_digit c" "\<forall>x \<in> set ds. is_digit x"
    and "r = [] \<or> \<not> is_digit (hd r)"
  shows "scan_int_part (c # ds @ r) = Some (c # ds, r)"
  using takeWhile_digits [OF assms(3,4)] assms(1,2) by (simp add: scan_int_part_def)

lemma scan_int_part_none: "s = [] \<or> \<not> is_digit (hd s) \<Longrightarrow> scan_int_part s = None"
  by (cases s) (auto simp: scan_int_part_def is_digit_zero)

lemma scan_int_part_Some:
  "scan_int_part s = Some (ids, r) \<Longrightarrow> s \<noteq> [] \<and> is_digit (hd s)"
  by (cases s) (auto simp: scan_int_part_def is_digit_zero split: if_splits)

lemma scan_frac_digits:
  assumes "fds \<noteq> []" "\<forall>x \<in> set fds. is_digit x" "r = [] \<or> \<not> is_digit (hd r)"
  shows "scan_frac (CHR ''.'' # fds @ r) = (fds, r)"
proof -
  from assms(1) obtain d ds where f: "fds = d # ds" by (cases fds) auto
  with assms(2) have "is_digit d" "\<forall>x \<in> set ds. is_digit x" by auto
  with takeWhile_digits [OF this(2) assms(3)] f show ?thesis by (simp add: scan_frac_def)
qed

lemma scan_frac_none: "r = [] \<or> hd r \<noteq> CHR ''.'' \<Longrightarrow> scan_frac r = ([], r)"
proof (cases r)
  case Nil
  then show ?thesis by (simp add: scan_frac_def)
next
  case (Cons c r')
  assume "r = [] \<or> hd r \<noteq> CHR ''.''"
  with Cons show ?thesis by (cases r') (simp_all add: scan_frac_def)
qed

lemma scan_exp_none:
  "r = [] \<or> (hd r \<noteq> CHR ''e'' \<and> hd r \<noteq> CHR ''E'') \<Longrightarrow> scan_exp r = (None, r)"
  by (cases r) (auto simp: scan_exp_def)

lemma scan_exp_digits:
  assumes "xd \<noteq> []" "\<forall>x \<in> set xd. is_digit x" "r = [] \<or> \<not> is_digit (hd r)"
    and "sg = CHR ''-'' \<or> sg = CHR ''+''"
  shows "scan_exp (CHR ''e'' # sg # xd @ r) =
           (Some ((if sg = CHR ''-'' then - 1 else 1) * int (nat_of_digits xd)), r)"
proof -
  from assms(1) obtain d ds where f: "xd = d # ds" by (cases xd) auto
  with assms(2) have "is_digit d" "\<forall>x \<in> set ds. is_digit x" by auto
  with takeWhile_digits [OF this(2) assms(3)] f assms(4) show ?thesis
    by (auto simp: scan_exp_def Let_def)
qed

lemma scan_number_parts:
  assumes "scan_int_part s1 = Some (ids, r)" "scan_frac r = (fds, r1)" "scan_exp r1 = (ex, r2)"
  shows "scan_number (sign_text neg @ s1) =
     (if fds = [] \<and> ex = None then
        Some (JInt ((if neg then - 1 else 1) * int (nat_of_digits ids)), r2)
      else
        Some (JFloat (float_of_decimal neg (nat_of_digits (ids @ fds))
                        ((case ex of None \<Rightarrow> 0 | Some x \<Rightarrow> x) - int (length fds))),
              r2))"
proof -
  from scan_int_part_Some [OF assms(1)] obtain c s' where s: "s1 = c # s'" "is_digit c"
    by (cases s1) auto
  then have c: "c \<noteq> CHR ''-''" using not_digit_chars by auto
  show ?thesis
  proof (cases neg)
    case True
    with assms s show ?thesis by (simp add: scan_number_def sign_text_def)
  next
    case False
    with assms s c show ?thesis by (simp add: scan_number_def sign_text_def)
  qed
qed

lemma follow_cases:
  assumes "follow rest"
  shows "rest = [] \<or> \<not> is_digit (hd rest)" "rest = [] \<or> hd rest \<noteq> CHR ''.''"
    "rest = [] \<or> (hd rest \<noteq> CHR ''e'' \<and> hd rest \<noteq> CHR ''E'')"
  using assms by (auto simp: follow_def number_char_def)

lemma scan_number_str_int:
  assumes "follow rest"
  shows "scan_number (str_int i @ rest) = Some (JInt i, rest)"
proof -
  note f = follow_cases [OF assms]
  have fr: "scan_frac rest = ([], rest)" using f(2) by (rule scan_frac_none)
  have ex: "scan_exp rest = (None, rest)" using f(3) by (rule scan_exp_none)
  have pos: "scan_number (sign_text neg @ str_nat n @ rest) =
               Some (JInt ((if neg then - 1 else 1) * int n), rest)" for neg n
  proof (cases "n = 0")
    case True
    have "scan_int_part (str_nat 0 @ rest) = Some (str_nat 0, rest)"
      by (simp add: str_nat_zero scan_int_part_zero)
    from scan_number_parts [OF this fr ex, of neg] True show ?thesis
      by (simp add: nat_of_digits_str_nat)
  next
    case False
    then have "0 < n" by simp
    then obtain c ds where s: "str_nat n = c # ds" "c \<noteq> CHR ''0''" "is_digit c"
      "\<forall>x \<in> set ds. is_digit x" "nat_of_digits (c # ds) = n"
      by (rule str_nat_pos)
    have "scan_int_part (c # ds @ rest) = Some (c # ds, rest)"
      using s(2,3,4) f(1) by (rule scan_int_part_digits)
    from scan_number_parts [OF this fr ex, of neg] s show ?thesis by simp
  qed
  show ?thesis
  proof (cases "i < 0")
    case True
    with pos [of True "nat (- i)"] show ?thesis by (simp add: str_int_def sign_text_def)
  next
    case False
    with pos [of False "nat i"] show ?thesis by (simp add: str_int_def sign_text_def)
  qed
qed

lemma scan_layout_small:
  assumes "c \<noteq> CHR ''0''" "is_digit c" "\<forall>x \<in> set ds. is_digit x"
    and "nat_of_digits (c # ds) = 10 * q + nz_val d" and "follow rest"
  shows "scan_number (sign_text neg @
            (CHR ''0'' # CHR ''.'' # replicate k (CHR ''0'') @ c # ds) @ rest) =
         Some (JFloat (Finite neg q d (- int k - int (length (c # ds)))), rest)"
proof -
  note f = follow_cases [OF assms(5)]
  let ?fds = "replicate k (CHR ''0'') @ c # ds"
  have ip: "scan_int_part (CHR ''0'' # CHR ''.'' # ?fds @ rest)
              = Some ([CHR ''0''], CHR ''.'' # ?fds @ rest)"
    by (rule scan_int_part_zero)
  have "\<forall>x \<in> set ?fds. is_digit x" using assms(2,3) by (auto simp: is_digit_zero)
  then have fr: "scan_frac (CHR ''.'' # ?fds @ rest) = (?fds, rest)"
    using f(1) by (intro scan_frac_digits) simp_all
  have ex: "scan_exp rest = (None, rest)" using f(3) by (rule scan_exp_none)
  have "nat_of_digits ([CHR ''0''] @ ?fds) = nat_of_digits (replicate (Suc k) (CHR ''0'') @ c # ds)"
    by simp
  also have "\<dots> = 10 * q + nz_val d"
    by (simp only: nat_of_digits_leading_zeros assms(4))
  finally have n: "nat_of_digits ([CHR ''0''] @ ?fds) = 10 * q + nz_val d" .
  from scan_number_parts [OF ip fr ex, of neg] show ?thesis
    by (simp only: n float_of_decimal_nz) simp
qed

lemma scan_layout_point:
  assumes "c \<noteq> CHR ''0''" "is_digit c" "\<forall>x \<in> set ds. is_digit x"
    and "nat_of_digits (c # ds) = 10 * q + nz_val d" and "follow rest"
    and "0 < p" "p < length (c # ds)"
  shows "scan_number (sign_text neg @
            (take p (c # ds) @ CHR ''.'' # drop p (c # ds)) @ rest) =
         Some (JFloat (Finite neg q d (int p - int (length (c # ds)))), rest)"
proof -
  note f = follow_cases [OF assms(5)]
  from assms(6) obtain p' where p: "p = Suc p'" by (cases p) auto
  let ?ids = "c # take p' ds" and ?fds = "drop p' ds"
  have t: "take p (c # ds) = ?ids" "drop p (c # ds) = ?fds" using p by simp_all
  have "\<forall>x \<in> set (take p' ds). is_digit x" using assms(3) by (auto dest: in_set_takeD)
  then have "scan_int_part (c # take p' ds @ CHR ''.'' # ?fds @ rest)
               = Some (?ids, CHR ''.'' # ?fds @ rest)"
    using assms(1,2) not_digit_chars(1) by (intro scan_int_part_digits) simp_all
  then have ip: "scan_int_part ((take p (c # ds) @ CHR ''.'' # drop p (c # ds)) @ rest)
               = Some (?ids, CHR ''.'' # ?fds @ rest)"
    by (simp add: t)
  have "?fds \<noteq> []" using assms(7) p by simp
  moreover have "\<forall>x \<in> set ?fds. is_digit x" using assms(3) by (auto dest: in_set_dropD)
  ultimately have fr: "scan_frac (CHR ''.'' # ?fds @ rest) = (?fds, rest)"
    using f(1) by (intro scan_frac_digits)
  have ex: "scan_exp rest = (None, rest)" using f(3) by (rule scan_exp_none)
  have n: "nat_of_digits (?ids @ ?fds) = 10 * q + nz_val d"
    using assms(4) by simp
  have l: "- int (length ?fds) = int p - int (length (c # ds))"
    using assms(7) p by simp
  from \<open>?fds \<noteq> []\<close> scan_number_parts [OF ip fr ex, of neg] show ?thesis
    by (simp only: n float_of_decimal_nz) (simp add: l p)
qed

lemma scan_layout_whole:
  assumes "c \<noteq> CHR ''0''" "is_digit c" "\<forall>x \<in> set ds. is_digit x"
    and "nat_of_digits (c # ds) = 10 * q + nz_val d" and "follow rest"
  shows "scan_number (sign_text neg @
            ((c # ds) @ replicate k (CHR ''0'') @ [CHR ''.'', CHR ''0'']) @ rest) =
         Some (JFloat (Finite neg q d (int k)), rest)"
proof -
  note f = follow_cases [OF assms(5)]
  let ?ids = "c # ds @ replicate k (CHR ''0'')"
  have "\<forall>x \<in> set (ds @ replicate k (CHR ''0'')). is_digit x"
    using assms(3) by (auto simp: is_digit_zero)
  then have "scan_int_part (c # (ds @ replicate k (CHR ''0'')) @ CHR ''.'' # [CHR ''0''] @ rest)
               = Some (?ids, CHR ''.'' # [CHR ''0''] @ rest)"
    using assms(1,2) not_digit_chars(1) by (intro scan_int_part_digits) simp_all
  then have ip: "scan_int_part (((c # ds) @ replicate k (CHR ''0'') @ [CHR ''.'', CHR ''0'']) @ rest)
               = Some (?ids, CHR ''.'' # [CHR ''0''] @ rest)"
    by simp
  have fr: "scan_frac (CHR ''.'' # [CHR ''0''] @ rest) = ([CHR ''0''], rest)"
    using f(1) by (intro scan_frac_digits) (simp_all add: is_digit_zero)
  have ex: "scan_exp rest = (None, rest)" using f(3) by (rule scan_exp_none)
  have "?ids @ [CHR ''0''] = (c # ds) @ replicate (Suc k) (CHR ''0'')"
    by (simp add: replicate_append_same)
  then have n: "nat_of_digits (?ids @ [CHR ''0'']) = (10 * q + nz_val d) * 10 ^ Suc k"
    by (simp only: nat_of_digits_trailing_zeros assms(4))
  have fl: "float_of_decimal neg ((10 * q + nz_val d) * 10 ^ Suc k) (int k - int (Suc k))
              = Finite neg q d (int k)"
    by (rule float_of_decimal_pow)
  have e: "(case None :: int option of None \<Rightarrow> 0 | Some x \<Rightarrow> x) - int (length [CHR ''0''])
             = int k - int (Suc k)"
    by simp
  from scan_number_parts [OF ip fr ex, of neg] show ?thesis
    by (simp only: n e fl) simp
qed

lemma scan_layout_exponent:
  assumes "c \<noteq> CHR ''0''" "is_digit c" "\<forall>x \<in> set ds. is_digit x"
    and "nat_of_digits (c # ds) = 10 * q + nz_val d" and "follow rest"
    and "xd \<noteq> []" "\<forall>x \<in> set xd. is_digit x" "sg = CHR ''-'' \<or> sg = CHR ''+''"
  shows "scan_number (sign_text neg @
            (c # (if ds = [] then [] else CHR ''.'' # ds) @ CHR ''e'' # sg # xd) @ rest) =
         Some (JFloat (Finite neg q d
                 ((if sg = CHR ''-'' then - 1 else 1) * int (nat_of_digits xd) - int (length ds))),
               rest)"
proof -
  note f = follow_cases [OF assms(5)]
  let ?tail = "CHR ''e'' # sg # xd @ rest"
  let ?x = "(if sg = CHR ''-'' then - 1 else 1) * int (nat_of_digits xd)"
  have ex: "scan_exp ?tail = (Some ?x, rest)"
    using assms(6,7) f(1) assms(8) by (rule scan_exp_digits)
  show ?thesis
  proof (cases "ds = []")
    case True
    have "scan_int_part (c # [] @ ?tail) = Some ([c], ?tail)"
      using assms(1,2) not_digit_chars(2) by (intro scan_int_part_digits) simp_all
    then have ip: "scan_int_part ((c # (if ds = [] then [] else CHR ''.'' # ds) @ CHR ''e'' # sg # xd) @ rest)
                = Some ([c], ?tail)"
      using True by simp
    have fr: "scan_frac ?tail = ([], ?tail)" by (intro scan_frac_none) simp
    have n: "nat_of_digits ([c] @ []) = 10 * q + nz_val d" using assms(4) True by simp
    from scan_number_parts [OF ip fr ex, of neg] True show ?thesis
      by (simp only: n float_of_decimal_nz) simp
  next
    case False
    have "scan_int_part (c # [] @ CHR ''.'' # ds @ ?tail) = Some ([c], CHR ''.'' # ds @ ?tail)"
      using assms(1,2) not_digit_chars(1) by (intro scan_int_part_digits) simp_all
    then have ip: "scan_int_part ((c # (if ds = [] then [] else CHR ''.'' # ds) @ CHR ''e'' # sg # xd) @ rest)
                = Some ([c], CHR ''.'' # ds @ ?tail)"
      using False by simp
    have fr: "scan_frac (CHR ''.'' # ds @ ?tail) = (ds, ?tail)"
      using False assms(3) not_digit_chars(2) by (intro scan_frac_digits) simp_all
    have n: "nat_of_digits ([c] @ ds) = 10 * q + nz_val d" using assms(4) by simp
    from scan_number_parts [OF ip fr ex, of neg] False show ?thesis
      by (simp only: n float_of_decimal_nz) simp
  qed
qed

lemma pad2_str_nat:
  "pad2 (str_nat n) \<noteq> []" "\<forall>x \<in> set (pad2 (str_nat n)). is_digit x"
  "nat_of_digits (pad2 (str_nat n)) = n"
proof -
  show "pad2 (str_nat n) \<noteq> []" by (simp add: pad2_def str_nat_nonempty)
  show "\<forall>x \<in> set (pad2 (str_nat n)). is_digit x"
    using str_nat_digits [of _ n] by (auto simp: pad2_def is_digit_zero)
  have "nat_of_digits (CHR ''0'' # str_nat n) = n"
    using nat_of_digits_leading_zeros [of 1 "str_nat n"] by (simp add: nat_of_digits_str_nat)
  then show "nat_of_digits (pad2 (str_nat n)) = n"
    by (simp add: pad2_def nat_of_digits_str_nat)
qed

lemma scan_number_repr_finite:
  assumes "follow rest"
  shows "scan_number (sign_text neg @ repr_finite (10 * q + nz_val d) e @ rest) =
           Some (JFloat (Finite neg q d e), rest)"
proof -
  have "0 < 10 * q + nz_val d" using nz_val_bounds [of d] by simp
  then obtain c ds where s: "str_nat (10 * q + nz_val d) = c # ds" "c \<noteq> CHR ''0''" "is_digit c"
    "\<forall>x \<in> set ds. is_digit x" "nat_of_digits (c # ds) = 10 * q + nz_val d"
    by (rule str_nat_pos)
  note a = s(2-5) assms
  define n where "n = int (length (c # ds))"
  define decpt where "decpt = n + e"
  consider (ex) "decpt \<le> - 4 \<or> 16 < decpt" | (small) "- 4 < decpt" "decpt \<le> 0"
    | (point) "0 < decpt" "decpt < n" "decpt \<le> 16" | (whole) "n \<le> decpt" "decpt \<le> 16"
    by linarith
  then show ?thesis
  proof cases
    case ex
    let ?sg = "if decpt - 1 < 0 then CHR ''-'' else CHR ''+''"
    let ?xd = "pad2 (str_nat (nat (abs (decpt - 1))))"
    have r: "repr_finite (10 * q + nz_val d) e =
               c # (if ds = [] then [] else CHR ''.'' # ds) @ CHR ''e'' # ?sg # ?xd"
      using ex by (simp add: repr_finite_def s(1) Let_def n_def decpt_def)
    have sg: "?sg = CHR ''-'' \<or> ?sg = CHR ''+''" by simp
    have "((if ?sg = CHR ''-'' then - 1 else 1) * int (nat_of_digits ?xd) - int (length ds)) = e"
      by (simp add: pad2_str_nat(3) decpt_def n_def)
    with scan_layout_exponent [OF a pad2_str_nat(1,2) sg, of neg] show ?thesis
      by (simp only: r)
  next
    case small
    have r: "repr_finite (10 * q + nz_val d) e =
               CHR ''0'' # CHR ''.'' # replicate (nat (- decpt)) (CHR ''0'') @ c # ds"
      using small by (simp add: repr_finite_def s(1) Let_def n_def decpt_def)
    have "- int (nat (- decpt)) - int (length (c # ds)) = e"
      using small by (simp add: decpt_def n_def)
    with scan_layout_small [OF a, of neg "nat (- decpt)"] show ?thesis
      by (simp only: r)
  next
    case point
    have r: "repr_finite (10 * q + nz_val d) e =
               take (nat decpt) (c # ds) @ CHR ''.'' # drop (nat decpt) (c # ds)"
      using point by (simp add: repr_finite_def s(1) Let_def n_def decpt_def)
    have p: "0 < nat decpt" "nat decpt < length (c # ds)" using point by (simp_all add: n_def)
    have "int (nat decpt) - int (length (c # ds)) = e"
      using point by (simp add: decpt_def n_def)
    with scan_layout_point [OF a p, of neg] show ?thesis
      by (simp only: r)
  next
    case whole
    have r: "repr_finite (10 * q + nz_val d) e =
               (c # ds) @ replicate (nat (decpt - n)) (CHR ''0'') @ [CHR ''.'', CHR ''0'']"
      using whole by (simp add: repr_finite_def s(1) Let_def n_def decpt_def)
    have "int (nat (decpt - n)) = e" using whole by (simp add: decpt_def)
    with scan_layout_whole [OF a, of neg "nat (decpt - n)"] show ?thesis
      by (simp only: r)
  qed
qed

lemma scan_number_zero:
  assumes "follow rest"
  shows "scan_number (sign_text neg @ ''0.0'' @ rest) = Some (JFloat (Zero neg), rest)"
proof -
  note f = follow_cases [OF assms]
  have ip: "scan_int_part (''0.0'' @ rest) = Some ([CHR ''0''], CHR ''.'' # [CHR ''0''] @ rest)"
    by (simp add: scan_int_part_zero)
  have fr: "scan_frac (CHR ''.'' # [CHR ''0''] @ rest) = ([CHR ''0''], rest)"
    using f(1) by (intro scan_frac_digits) (simp_all add: is_digit_zero)
  have ex: "scan_exp rest = (None, rest)" using f(3) by (rule scan_exp_none)
  have "nat_of_digits ([CHR ''0''] @ [CHR ''0'']) = 0"
    using nat_of_digits_zeros [of 2] by (simp add: numeral_2_eq_2)
  with scan_number_parts [OF ip fr ex, of neg] show ?thesis
    by (simp add: float_of_decimal_def)
qed

lemma scan_number_constants:
  "scan_number (''NaN'' @ rest) = Some (JFloat NaN, rest)"
  "scan_number (''Infinity'' @ rest) = Some (JFloat (Infinity False), rest)"
  "scan_number (''-Infinity'' @ rest) = Some (JFloat (Infinity True), rest)"
  by (simp_all add: scan_number_def scan_int_part_def scan_constant_def not_digit_chars)

lemma scan_number_floatstr:
  assumes "follow rest"
  shows "scan_number (floatstr x @ rest) = Some (JFloat x, rest)"
proof (cases x)
  case (Zero neg)
  with scan_number_zero [OF assms, of neg] show ?thesis by simp
next
  case (Finite neg q d e)
  with scan_number_repr_finite [OF assms, of neg q d e] show ?thesis by simp
next
  case (Infinity neg)
  with scan_number_constants(2,3) [of rest] show ?thesis by (cases neg) (simp_all add: sign_text_def)
next
  case NaN
  with scan_number_constants(1) [of rest] show ?thesis by simp
qed

lemma str_int_nonempty: "str_int i \<noteq> []"
  by (simp add: str_int_def str_nat_nonempty)

lemma hd_str_int: "hd (str_int i) = CHR ''-'' \<or> is_digit (hd (str_int i))"
  using str_nat_digits [of "hd (str_nat (nat i))" "nat i"] str_nat_nonempty [of "nat i"]
  by (simp add: str_int_def)

lemma repr_finite_Cons: "\<exists>c r. repr_finite m e = c # r \<and> is_digit c"
proof -
  obtain c ds where s: "str_nat m = c # ds"
    using str_nat_nonempty [of m] by (cases "str_nat m") auto
  then have "is_digit c" using str_nat_digits [of c m] by simp
  with s show ?thesis by (simp add: repr_finite_def Let_def is_digit_zero take_Cons')
qed

lemma floatstr_Cons:
  "\<exists>c r. floatstr x = c # r \<and> (c = CHR ''-'' \<or> is_digit c \<or> c = CHR ''I'' \<or> c = CHR ''N'')"
proof (cases x)
  case (Zero neg)
  then show ?thesis by (simp add: sign_text_def is_digit_zero)
next
  case (Finite neg q d e)
  with repr_finite_Cons [of "10 * q + nz_val d" e] show ?thesis
    by (auto simp: sign_text_def)
next
  case (Infinity neg)
  then show ?thesis by (simp add: sign_text_def)
next
  case NaN
  then show ?thesis by simp
qed

lemma json_dumps_Cons:
  obtains c r where "json_dumps v = c # r" "\<not> is_ws c" "c \<noteq> CHR '']''"
    "c = CHR ''['' \<longleftrightarrow> (\<exists>xs. v = JList xs)"
proof (cases v)
  case (JInt i)
  obtain c r where s: "str_int i = c # r"
    using str_int_nonempty [of i] by (cases "str_int i") auto
  with hd_str_int [of i] have "c = CHR ''-'' \<or> is_digit c" by simp
  then have "\<not> is_ws c" "c \<noteq> CHR '']''" "c \<noteq> CHR ''[''"
    by (auto simp: is_ws_def is_digit_def)
  with that [of c r] s JInt show ?thesis by simp
next
  case (JFloat x)
  from floatstr_Cons [of x] obtain c r where s: "floatstr x = c # r"
    "c = CHR ''-'' \<or> is_digit c \<or> c = CHR ''I'' \<or> c = CHR ''N''"
    by blast
  then have "\<not> is_ws c" "c \<noteq> CHR '']''" "c \<noteq> CHR ''[''"
    by (auto simp: is_ws_def is_digit_def)
  with that [of c r] s JFloat show ?thesis by simp
next
  case (JList xs)
  with that [of "CHR ''[''" "join '', '' (map json_dumps xs) @ '']''"] show ?thesis
    by (simp add: is_ws_def)
qed

lemma skip_ws_dumps: "skip_ws (json_dumps v @ rest) = json_dumps v @ rest"
  by (rule json_dumps_Cons [of v]) (simp add: skip_ws_def)

lemma join_Cons_dumps:
  "join sep (map json_dumps (y # zs)) @ rest =
   json_dumps y @ (if zs = [] then rest else sep @ join sep (map json_dumps zs) @ rest)"
  by (cases zs) simp_all

lemma follow_separators: "follow (CHR '']'' # rest)" "follow (CHR '','' # rest)" "follow []"
  by (simp_all add: follow_def number_char_def is_digit_def)

lemma parse_array_dumps:
  assumes IH: "\<And>x n rest. x \<in> set xs \<Longrightarrow> nodes x < n \<Longrightarrow> follow rest \<Longrightarrow>
                 parse_value n (json_dumps x @ rest) = Some (x, rest)"
  shows "xs \<noteq> [] \<Longrightarrow> sum_list (map (\<lambda>x. Suc (nodes x)) xs) < n \<Longrightarrow>
         parse_array n (join '', '' (map json_dumps xs) @ CHR '']'' # rest) = Some (xs, rest)"
  using IH
proof (induction xs arbitrary: n)
  case Nil
  then show ?case by simp
next
  case (Cons x ys)
  from Cons.prems(2) obtain m where n: "n = Suc m" "nodes x < m"
    "sum_list (map (\<lambda>x. Suc (nodes x)) ys) < m"
    by (cases n) auto
  show ?case
  proof (cases ys)
    case Nil
    have "parse_value m (json_dumps x @ CHR '']'' # rest) = Some (x, CHR '']'' # rest)"
      using n by (intro Cons.prems(3)) (simp_all add: follow_separators)
    with Nil n show ?thesis by (simp add: skip_ws_def is_ws_def)
  next
    case (Cons y zs)
    let ?tail = "join '', '' (map json_dumps ys) @ CHR '']'' # rest"
    have v: "parse_value m (json_dumps x @ CHR '','' # CHR '' '' # ?tail)
               = Some (x, CHR '','' # CHR '' '' # ?tail)"
      using n by (intro Cons.prems(3)) (simp_all add: follow_separators)
    have a: "parse_array m ?tail = Some (ys, rest)"
      using n Cons Cons.prems(3) by (intro Cons.IH) auto
    have "skip_ws ?tail = ?tail"
      unfolding Cons join_Cons_dumps by (rule skip_ws_dumps)
    then have s: "skip_ws (CHR '' '' # ?tail) = ?tail"
      by (simp add: skip_ws_def is_ws_def)
    have "join '', '' (map json_dumps (x # ys)) @ CHR '']'' # rest
            = json_dumps x @ CHR '','' # CHR '' '' # ?tail"
      using Cons by simp
    with v a s n show ?thesis by (simp add: skip_ws_def is_ws_def)
  qed
qed

lemma parse_value_number:
  assumes "json_dumps v = c # r" "c \<noteq> CHR ''[''" "0 < n"
  shows "parse_value n (json_dumps v @ rest) = scan_number (json_dumps v @ rest)"
proof -
  from assms(3) obtain m where "n = Suc m" by (cases n) auto
  with assms(1,2) show ?thesis by simp
qed

lemma parse_value_dumps:
  "nodes v < n \<Longrightarrow> follow rest \<Longrightarrow> parse_value n (json_dumps v @ rest) = Some (v, rest)"
proof (induction v arbitrary: n rest)
  case (JInt i)
  obtain c r where s: "json_dumps (JInt i) = c # r" "c \<noteq> CHR ''[''"
    by (rule json_dumps_Cons [of "JInt i"]) auto
  from JInt.prems(1) have "0 < n" by simp
  from parse_value_number [OF s this, of rest] scan_number_str_int [OF JInt.prems(2), of i]
  show ?case by simp
next
  case (JFloat x)
  obtain c r where s: "json_dumps (JFloat x) = c # r" "c \<noteq> CHR ''[''"
    by (rule json_dumps_Cons [of "JFloat x"]) auto
  from JFloat.prems(1) have "0 < n" by simp
  from parse_value_number [OF s this, of rest] scan_number_floatstr [OF JFloat.prems(2), of x]
  show ?case by simp
next
  case (JList xs)
  then obtain m where n: "n = Suc m" "sum_list (map (\<lambda>x. Suc (nodes x)) xs) < m"
    by (cases n) auto
  show ?case
  proof (cases xs)
    case Nil
    with n show ?thesis by (simp add: skip_ws_def is_ws_def)
  next
    case (Cons y zs)
    let ?body = "join '', '' (map json_dumps xs) @ CHR '']'' # rest"
    have a: "parse_array m ?body = Some (xs, rest)"
      using n Cons JList.IH by (intro parse_array_dumps) auto
    obtain c r where b: "?body = c # r" "\<not> is_ws c" "c \<noteq> CHR '']''"
    proof (rule json_dumps_Cons [of y])
      fix c r assume c: "json_dumps y = c # r" "\<not> is_ws c" "c \<noteq> CHR '']''"
      have "?body = json_dumps y @
          (if zs = [] then CHR '']'' # rest
           else '', '' @ join '', '' (map json_dumps zs) @ CHR '']'' # rest)"
        unfolding Cons by (rule join_Cons_dumps)
      with c have "\<exists>r'. ?body = c # r'" by simp
      with c that show thesis by blast
    qed
    then have "skip_ws ?body = c # r" by (simp add: skip_ws_def)
    with a b n show ?thesis by simp
  qed
qed

lemma nodes_lt_length_dumps: "nodes v < length (json_dumps v)"
proof (induction v)
  case (JInt i)
  then show ?case using str_int_nonempty [of i] by simp
next
  case (JFloat x)
  then show ?case using floatstr_Cons [of x] by auto
next
  case (JList xs)
  then have "sum_list (map (\<lambda>x. Suc (nodes x)) xs) \<le> length (join '', '' (map json_dumps xs))"
  proof (induction xs rule: induct_list012)
    case 1
    then show ?case by simp
  next
    case (2 x)
    then show ?case by (simp add: Suc_leI)
  next
    case (3 x y zs)
    from 3(3) [of x] have "nodes x < length (json_dumps x)" by simp
    moreover from 3 have "sum_list (map (\<lambda>x. Suc (nodes x)) (y # zs))
                            \<le> length (join '', '' (map json_dumps (y # zs)))"
      by simp
    ultimately show ?case by simp
  qed
  then show ?case by simp
qed

lemma json_loads_dumps: "json_loads (json_dumps v) = Some v"
proof -
  have "parse_value (length (json_dumps v)) (json_dumps v @ []) = Some (v, [])"
    by (intro parse_value_dumps nodes_lt_length_dumps follow_separators)
  moreover have "skip_ws (json_dumps v) = json_dumps v"
    using skip_ws_dumps [of v "[]"] by simp
  ultimately show ?thesis by (simp add: json_loads_def skip_ws_def)
qed

lemma json_dumps_inj: "json_dumps a = json_dumps b \<Longrightarrow> a = b"
  by (metis json_loads_dumps option.inject)

section \<open>The query\<close>

lemma select_results_empty_iff:
  "select_results db nm = [] \<longleftrightarrow>
   (\<forall>r \<in> set (experimental_results db). \<forall>ob \<in> set (observables db).
      observable_id r = fst ob \<longrightarrow> snd ob \<noteq> nm)"
  by (auto simp: select_results_def filter_empty_conv)

lemma decode_NameError: "decode s = Inl (NameError ''json'')"
  by (simp add: decode_def lookup_global_def module_names_def)

lemma query_observables_cases:
  "query_observables (Some db) nm =
     (if select_results db nm = []
      then Inl (ValueError (''No data found for observable: '' @ nm))
      else Inl (NameError ''json''))"
  by (cases "select_results db nm")
     (auto simp: query_observables_def execute_select_def fetchone_def decode_NameError)

lemma query_observables_None:
  "query_observables None nm = Inl (OperationalError ''no such table: experimental_results'')"
  by (simp add: query_observables_def execute_select_def)

text \<open>
  C8 as stated fails. \<open>__main__\<close> opens the file with \<open>connect_to_database\<close> and
  creates no table. On a file without tables no fact row matches the name, and the
  query raises \<open>sqlite3.OperationalError\<close>, which \<open>except ValueError\<close> does not catch.
\<close>

theorem query_without_tables:
  "query_observables None ''mean_pT_pion'' =
     Inl (OperationalError ''no such table: experimental_results'') \<and>
   main None = Uncaught (OperationalError ''no such table: experimental_results'')"
  by (simp add: main_def main_try_def query_observables_None)

text \<open>
  C8, as the code has it. On a file whose tables exist, when no fact row joins an
  observable of the queried name, \<open>query_observables\<close> raises \<open>ValueError\<close> with the
  message "No data found for observable: ..."; the \<open>try\<close> block of \<open>__main__\<close>
  catches it and prints the message.
\<close>

theorem query_not_found:
  assumes "\<forall>r \<in> set (experimental_results db). \<forall>ob \<in> set (observables db).
             observable_id r = fst ob \<longrightarrow> snd ob \<noteq> nm"
  shows "query_observables (Some db) nm =
           Inl (ValueError (''No data found for observable: '' @ nm)) \<and>
         main_try (Some db) nm = Printed (''No data found for observable: '' @ nm)"
proof -
  from assms have "select_results db nm = []" by (simp add: select_results_empty_iff)
  then have "query_observables (Some db) nm =
               Inl (ValueError (''No data found for observable: '' @ nm))"
    by (simp add: query_observables_cases)
  then show ?thesis by (simp add: main_try_def)
qed

text \<open>
  The name that \<open>__main__\<close> queries, on the store that \<open>populate_database\<close> leaves.
\<close>

theorem query_not_found_witness:
  "''mean_pT_pion'' \<notin> snd ` set (observables db_run1) \<and>
   query_observables (Some db_run1) ''mean_pT_pion'' =
     Inl (ValueError ''No data found for observable: mean_pT_pion'') \<and>
   main (Some db_run1) = Printed ''No data found for observable: mean_pT_pion''"
proof -
  have h: "\<forall>r \<in> set (experimental_results db_run1). \<forall>ob \<in> set (observables db_run1).
             observable_id r = fst ob \<longrightarrow> snd ob \<noteq> ''mean_pT_pion''"
    by (simp add: db_run1_def)
  have "''mean_pT_pion'' \<notin> snd ` set (observables db_run1)"
    by (simp add: db_run1_def)
  with query_not_found [OF h] show ?thesis by (simp add: main_def)
qed

text \<open>
  C10. \<open>query_observables\<close> raises \<open>NameError\<close> for \<open>json\<close> exactly when the tables
  exist and a fact row joins an observable of the queried name: the module never
  imports \<open>json\<close>, and the found branch calls \<open>json.loads\<close> first. Only the
  not-found branch ends otherwise.
\<close>

theorem query_found_NameError:
  "query_observables file nm = Inl (NameError ''json'') \<longleftrightarrow>
   (\<exists>db. file = Some db \<and>
      (\<exists>r \<in> set (experimental_results db). \<exists>ob \<in> set (observables db).
         observable_id r = fst ob \<and> snd ob = nm))"
proof (cases "file")
  case None
  then show ?thesis by (simp add: query_observables_None)
next
  case (Some db)
  have "query_observables (Some db) nm = Inl (NameError ''json'') \<longleftrightarrow>
          select_results db nm \<noteq> []"
    by (simp add: query_observables_cases)
  with Some show ?thesis by (auto simp: select_results_empty_iff)
qed

text \<open>The stored short name on the store that \<open>populate_database\<close> leaves.\<close>

theorem query_found_NameError_witness:
  "(\<exists>r \<in> set (experimental_results db_run1). \<exists>ob \<in> set (observables db_run1).
      observable_id r = fst ob \<and> snd ob = ''dNch_deta'') \<and>
   query_observables (Some db_run1) ''dNch_deta'' = Inl (NameError ''json'')"
proof -
  have h: "\<exists>r \<in> set (experimental_results db_run1). \<exists>ob \<in> set (observables db_run1).
             observable_id r = fst ob \<and> snd ob = ''dNch_deta''"
    by (simp add: db_run1_def fact_row_def)
  with query_found_NameError [of "Some db_run1" "''dNch_deta''"] show ?thesis by blast
qed

lemma fetchone_const_map: "ys \<noteq> [] \<Longrightarrow> fetchone (map (\<lambda>_. t) ys @ rest) = Some t"
  by (cases ys) (simp_all add: fetchone_def)

lemma fetchone_first_match:
  assumes rows: "experimental_results db = pre @ row # post"
    and pre: "\<forall>r \<in> set pre. \<forall>ob \<in> set (observables db). observable_id r = fst ob \<longrightarrow> snd ob \<noteq> nm"
    and row: "\<exists>ob \<in> set (observables db). observable_id row = fst ob \<and> snd ob = nm"
  shows "fetchone (select_results db nm) =
           Some (centrality_bins_col row, value_col row, error_col row, reference_col row)"
proof -
  let ?match = "\<lambda>r ob. observable_id r = fst ob \<and> snd ob = nm"
  let ?cols = "\<lambda>r. (centrality_bins_col r, value_col r, error_col r, reference_col r)"
  let ?f = "\<lambda>r. map (\<lambda>ob. ?cols r) (filter (?match r) (observables db))"
  have "concat (map ?f pre) = []"
    using pre by (auto simp: filter_empty_conv)
  then have "select_results db nm = ?f row @ concat (map ?f post)"
    by (simp add: select_results_def rows)
  moreover from row have "filter (?match row) (observables db) \<noteq> []"
    by (auto simp: filter_empty_conv)
  ultimately show ?thesis by (simp add: fetchone_const_map)
qed

text \<open>
  C7, as the code has it. The query selects by name only and takes one row with
  \<open>fetchone()\<close>: the first fact row, in store order, that joins an observable of that
  name. The fact rows after it have no influence, whether they match or not.
\<close>

theorem query_fetches_first_match:
  assumes "experimental_results db = pre @ row # post"
    and "\<forall>r \<in> set pre. \<forall>ob \<in> set (observables db). observable_id r = fst ob \<longrightarrow> snd ob \<noteq> nm"
    and "\<exists>ob \<in> set (observables db). observable_id row = fst ob \<and> snd ob = nm"
  shows "fetchone (select_results db nm) =
           Some (centrality_bins_col row, value_col row, error_col row, reference_col row)"
  using assms by (rule fetchone_first_match)

text \<open>Two fact rows under one short name: the first one is fetched.\<close>

theorem query_fetches_first_match_witness:
  "experimental_results db_two_rows =
     [] @ fact_row 1 1 centrality_classes alice_values alice_errors alice_reference #
       [fact_row 2 1 centrality_classes (JList [JInt 1584]) alice_errors alice_reference] \<and>
   (\<exists>ob \<in> set (observables db_two_rows).
      observable_id (fact_row 1 1 centrality_classes alice_values alice_errors alice_reference)
        = fst ob \<and> snd ob = ''dNch_deta'') \<and>
   fetchone (select_results db_two_rows ''dNch_deta'') =
     Some (json_dumps centrality_classes, json_dumps alice_values, json_dumps alice_errors,
           str_dict alice_reference)"
proof -
  let ?row = "fact_row 1 1 centrality_classes alice_values alice_errors alice_reference"
  have r: "experimental_results db_two_rows =
     [] @ ?row # [fact_row 2 1 centrality_classes (JList [JInt 1584]) alice_errors alice_reference]"
    by (simp add: db_two_rows_def)
  have p: "\<forall>r \<in> set []. \<forall>ob \<in> set (observables db_two_rows).
             observable_id r = fst ob \<longrightarrow> snd ob \<noteq> ''dNch_deta''"
    by simp
  have m: "\<exists>ob \<in> set (observables db_two_rows).
      observable_id ?row = fst ob \<and> snd ob = ''dNch_deta''"
    by (simp add: db_two_rows_def fact_row_def)
  from r m query_fetches_first_match [OF r p m] show ?thesis
    by (simp add: fact_row_def)
qed

section \<open>The insertion\<close>

lemma fold_max_Max: "fold max ids (i :: int) = Max (set (i # ids))"
  by (simp only: Max.set_eq_fold)

lemma next_rowid_Some:
  assumes "list_all (\<lambda>i. i < max_rowid) ids"
  shows "\<exists>k. next_rowid ids = Some k \<and> k \<notin> set ids"
proof (cases ids)
  case Nil
  then show ?thesis by simp
next
  case (Cons i rest)
  let ?m = "Max (set (i # rest))"
  have "?m \<in> set (i # rest)" by (intro Max_in) simp_all
  with assms Cons have lt: "?m < max_rowid" by (auto simp: list_all_iff)
  have "?m + 1 \<notin> set (i # rest)"
  proof
    assume "?m + 1 \<in> set (i # rest)"
    then have "?m + 1 \<le> ?m" by (intro Max_ge) simp_all
    then show False by simp
  qed
  with lt Cons show ?thesis by (simp add: fold_max_Max)
qed

lemma select_new_observable:
  "\<exists>oid. fetchone (select_observable_id (tbl @ [(k, nm)]) nm) = Some oid \<and>
         (oid, nm) \<in> set (tbl @ [(k, nm)])"
proof (cases "filter (\<lambda>row. snd row = nm) tbl")
  case Nil
  then show ?thesis by (simp add: select_observable_id_def fetchone_def)
next
  case (Cons ob obs)
  then have "ob \<in> set (filter (\<lambda>row. snd row = nm) tbl)" by simp
  then have "(fst ob, nm) \<in> set tbl" by auto
  with Cons show ?thesis by (simp add: select_observable_id_def fetchone_def)
qed

lemma insert_integrated_observable_data_Inr:
  assumes "rowids_below_max db"
    and "centrality_bins obs = NdArray b" "values_of obs = NdArray v" "errors obs = NdArray e"
  shows "\<exists>k rid oid.
     k \<notin> fst ` set (observables db) \<and>
     (oid, short_name obs) \<in> set (observables db @ [(k, short_name obs)]) \<and>
     insert_integrated_observable_data db obs =
       Inr (db \<lparr> observables := observables db @ [(k, short_name obs)],
                 experimental_results :=
                   experimental_results db @ [fact_row rid oid b v e (reference obs)] \<rparr>)"
proof -
  from assms(1) have "list_all (\<lambda>i. i < max_rowid) (map fst (observables db))"
    "list_all (\<lambda>i. i < max_rowid) (map result_id (experimental_results db))"
    by (simp_all add: rowids_below_max_def list_all_iff)
  then obtain k rid where k: "next_rowid (map fst (observables db)) = Some k"
    "k \<notin> set (map fst (observables db))"
    and rid: "next_rowid (map result_id (experimental_results db)) = Some rid"
    using next_rowid_Some by blast
  obtain oid where oid:
    "fetchone (select_observable_id (observables db @ [(k, short_name obs)]) (short_name obs))
       = Some oid"
    "(oid, short_name obs) \<in> set (observables db @ [(k, short_name obs)])"
    using select_new_observable by blast
  have "insert_integrated_observable_data db obs =
       Inr (db \<lparr> observables := observables db @ [(k, short_name obs)],
                 experimental_results :=
                   experimental_results db @ [fact_row rid oid b v e (reference obs)] \<rparr>)"
    using k(1) rid oid(1) assms(2-4)
    by (simp add: insert_integrated_observable_data_def fact_row_def)
  with k(2) oid(2) show ?thesis by (intro exI [of _ k] exI [of _ rid] exI [of _ oid]) simp
qed

text \<open>
  A save whose data is not a numpy array of numbers fails: a plain list has no
  \<open>tolist\<close>, and \<open>json.dumps\<close> refuses the \<open>Ellipsis\<close> of the placeholder
  \<open>np.array([...])\<close>, which the second example of the source still carries.
\<close>

lemma save_plain_list_raises:
  "populate_database None (alice_ch_mult \<lparr> values_of := PlainList alice_values \<rparr>) =
     Inl (AttributeError (quoted ''list'' @ '' object has no attribute '' @ quoted ''tolist''))"
  by (simp add: populate_database_def insert_integrated_observable_data_def create_tables_def
      insert_or_ignore_def fetchone_def select_observable_id_def alice_ch_mult_def
      ALICE_cent_bins_def max_rowid_def)

lemma save_placeholder_raises:
  "populate_database None (star_pion_mult ellipsis_array ellipsis_array) =
     Inl (TypeError ''Object of type ellipsis is not JSON serializable'')"
  by (simp add: populate_database_def insert_integrated_observable_data_def create_tables_def
      insert_or_ignore_def fetchone_def select_observable_id_def star_pion_mult_def
      STAR_cent_bins_def ellipsis_array_def max_rowid_def)

lemma populate_run1: "populate_database None alice_ch_mult = Inr db_run1"
  by (simp add: populate_database_def insert_integrated_observable_data_def create_tables_def
      insert_or_ignore_def fetchone_def select_observable_id_def db_run1_def fact_row_def
      alice_ch_mult_def ALICE_cent_bins_def max_rowid_def)

lemma populate_run2: "populate_database (Some db_run1) alice_ch_mult = Inr db_run2"
  by (simp add: populate_database_def insert_integrated_observable_data_def create_tables_def
      insert_or_ignore_def fetchone_def select_observable_id_def db_run1_def db_run2_def
      fact_row_def alice_ch_mult_def ALICE_cent_bins_def max_rowid_def)

lemma rowids_below_max_examples:
  "rowids_below_max (create_tables None)" "rowids_below_max db_run1"
  by (simp_all add: rowids_below_max_def create_tables_def db_run1_def fact_row_def
      max_rowid_def)

text \<open>
  C7 as stated fails: after two insertions under the short name \<open>dNch_deta\<close> the
  \<open>SELECT\<close> of the query has two rows with different values; \<open>fetchone()\<close> takes
  the first, and the caller gets a single outcome, never both rows.
\<close>

theorem query_one_of_two_rows:
  "insert_each (create_tables None)
     [alice_ch_mult, alice_ch_mult \<lparr> values_of := NdArray (JList [JInt 1584]) \<rparr>]
     = Inr db_two_rows \<and>
   select_results db_two_rows ''dNch_deta'' =
     [(json_dumps centrality_classes, json_dumps alice_values, json_dumps alice_errors,
       str_dict alice_reference),
      (json_dumps centrality_classes, json_dumps (JList [JInt 1584]), json_dumps alice_errors,
       str_dict alice_reference)] \<and>
   json_dumps alice_values \<noteq> json_dumps (JList [JInt 1584]) \<and>
   fetchone (select_results db_two_rows ''dNch_deta'') =
     Some (json_dumps centrality_classes, json_dumps alice_values, json_dumps alice_errors,
           str_dict alice_reference) \<and>
   query_observables (Some db_two_rows) ''dNch_deta'' = Inl (NameError ''json'')"
proof -
  have a: "insert_each (create_tables None)
             [alice_ch_mult, alice_ch_mult \<lparr> values_of := NdArray (JList [JInt 1584]) \<rparr>]
           = Inr db_two_rows"
    by (simp add: insert_integrated_observable_data_def create_tables_def fetchone_def
        select_observable_id_def db_two_rows_def fact_row_def alice_ch_mult_def
        ALICE_cent_bins_def max_rowid_def)
  have b: "select_results db_two_rows ''dNch_deta'' =
     [(json_dumps centrality_classes, json_dumps alice_values, json_dumps alice_errors,
       str_dict alice_reference),
      (json_dumps centrality_classes, json_dumps (JList [JInt 1584]), json_dumps alice_errors,
       str_dict alice_reference)]"
    by (simp add: select_results_def db_two_rows_def fact_row_def)
  have c: "json_dumps alice_values \<noteq> json_dumps (JList [JInt 1584])"
  proof
    assume "json_dumps alice_values = json_dumps (JList [JInt 1584])"
    then have "alice_values = JList [JInt 1584]" by (rule json_dumps_inj)
    then show False by (simp add: alice_values_def)
  qed
  from b have "query_observables (Some db_two_rows) ''dNch_deta'' = Inl (NameError ''json'')"
    by (simp add: query_observables_cases)
  with a b c show ?thesis by (simp add: fetchone_def)
qed

text \<open>
  C6, as the code has it. A save of an entity whose three arrays are numpy arrays of
  numbers, into a store whose keys are below the largest key, succeeds and appends
  exactly one fact row. The row holds the JSON text of the centrality bins, of the
  values and of the errors, each of which \<open>json.loads\<close> decodes to the numbers
  saved, integers and floats alike, and the \<open>str()\<close> text of the reference
  dictionary; its observable id belongs to a row of \<open>observables\<close> with the entity's
  short name. The kind-specific parameters are no part of the row.
\<close>

theorem inserted_fact_row:
  assumes "rowids_below_max db"
    and "centrality_bins obs = NdArray b" "values_of obs = NdArray v" "errors obs = NdArray e"
  shows "\<exists>db' row.
     insert_integrated_observable_data db obs = Inr db' \<and>
     experimental_results db' = experimental_results db @ [row] \<and>
     (observable_id row, short_name obs) \<in> set (observables db') \<and>
     row = fact_row (result_id row) (observable_id row) b v e (reference obs) \<and>
     centrality_bins_col row = json_dumps b \<and>
     json_loads (centrality_bins_col row) = Some b \<and>
     value_col row = json_dumps v \<and>
     json_loads (value_col row) = Some v \<and>
     error_col row = json_dumps e \<and>
     json_loads (error_col row) = Some e \<and>
     reference_col row = str_dict (reference obs)"
proof -
  from insert_integrated_observable_data_Inr [OF assms] obtain k rid oid where
    oid: "(oid, short_name obs) \<in> set (observables db @ [(k, short_name obs)])"
    and ins: "insert_integrated_observable_data db obs =
       Inr (db \<lparr> observables := observables db @ [(k, short_name obs)],
                 experimental_results :=
                   experimental_results db @ [fact_row rid oid b v e (reference obs)] \<rparr>)"
    by blast
  let ?row = "fact_row rid oid b v e (reference obs)"
  have "json_loads (centrality_bins_col ?row) = Some b"
       "json_loads (value_col ?row) = Some v"
       "json_loads (error_col ?row) = Some e"
    by (simp_all add: fact_row_def json_loads_dumps)
  with oid ins show ?thesis
    by (intro exI [of _ "db \<lparr> observables := observables db @ [(k, short_name obs)],
                 experimental_results := experimental_results db @ [?row] \<rparr>"]
              exI [of _ ?row])
       (simp add: fact_row_def)
qed

text \<open>
  The first example with values and errors measured as floats, saved into the store
  that \<open>populate_database\<close> leaves.
\<close>

theorem inserted_fact_row_witness:
  "rowids_below_max db_run1 \<and>
   (\<exists>db' row.
     insert_integrated_observable_data db_run1
       (alice_ch_mult \<lparr> values_of := NdArray (JList [JFloat (Finite False 160 D1 0),
                                                       JFloat (Finite False 1294 D5 (- 1))]),
                        errors := NdArray (JList [JFloat (Finite False 0 D6 1),
                                                   JFloat (Finite False 4 D9 (- 2))]) \<rparr>)
       = Inr db' \<and>
     experimental_results db' = experimental_results db_run1 @ [row] \<and>
     (observable_id row, ''dNch_deta'') \<in> set (observables db') \<and>
     row = fact_row (result_id row) (observable_id row) centrality_classes
             (JList [JFloat (Finite False 160 D1 0), JFloat (Finite False 1294 D5 (- 1))])
             (JList [JFloat (Finite False 0 D6 1), JFloat (Finite False 4 D9 (- 2))])
             alice_reference \<and>
     centrality_bins_col row = json_dumps centrality_classes \<and>
     json_loads (centrality_bins_col row) = Some centrality_classes \<and>
     value_col row = json_dumps (JList [JFloat (Finite False 160 D1 0),
                                        JFloat (Finite False 1294 D5 (- 1))]) \<and>
     json_loads (value_col row) =
       Some (JList [JFloat (Finite False 160 D1 0), JFloat (Finite False 1294 D5 (- 1))]) \<and>
     json_loads (error_col row) =
       Some (JList [JFloat (Finite False 0 D6 1), JFloat (Finite False 4 D9 (- 2))]) \<and>
     reference_col row = str_dict alice_reference)"
proof -
  let ?v = "JList [JFloat (Finite False 160 D1 0), JFloat (Finite False 1294 D5 (- 1))]"
  let ?e = "JList [JFloat (Finite False 0 D6 1), JFloat (Finite False 4 D9 (- 2))]"
  let ?obs = "alice_ch_mult \<lparr> values_of := NdArray ?v, errors := NdArray ?e \<rparr>"
  have h: "rowids_below_max db_run1" by (rule rowids_below_max_examples)
  have a: "centrality_bins ?obs = NdArray centrality_classes" "values_of ?obs = NdArray ?v"
    "errors ?obs = NdArray ?e"
    by (simp_all add: alice_ch_mult_def ALICE_cent_bins_def)
  from inserted_fact_row [OF h a] obtain db' row where
    "insert_integrated_observable_data db_run1 ?obs = Inr db'"
    "experimental_results db' = experimental_results db_run1 @ [row]"
    "(observable_id row, short_name ?obs) \<in> set (observables db')"
    "row = fact_row (result_id row) (observable_id row) centrality_classes ?v ?e (reference ?obs)"
    "centrality_bins_col row = json_dumps centrality_classes"
    "json_loads (centrality_bins_col row) = Some centrality_classes"
    "value_col row = json_dumps ?v"
    "json_loads (value_col row) = Some ?v"
    "json_loads (error_col row) = Some ?e"
    "reference_col row = str_dict (reference ?obs)"
    by blast
  then have "insert_integrated_observable_data db_run1 ?obs = Inr db' \<and>
     experimental_results db' = experimental_results db_run1 @ [row] \<and>
     (observable_id row, ''dNch_deta'') \<in> set (observables db') \<and>
     row = fact_row (result_id row) (observable_id row) centrality_classes ?v ?e
             alice_reference \<and>
     centrality_bins_col row = json_dumps centrality_classes \<and>
     json_loads (centrality_bins_col row) = Some centrality_classes \<and>
     value_col row = json_dumps ?v \<and>
     json_loads (value_col row) = Some ?v \<and>
     json_loads (error_col row) = Some ?e \<and>
     reference_col row = str_dict alice_reference"
    by (simp add: alice_ch_mult_def)
  with h show ?thesis by blast
qed

text \<open>
  C6 as stated fails: the first example and the same measurement of kaons, both built
  by the constructor, differ in a kind-specific parameter and leave the same store,
  whose fact row has no place for the parameters.
\<close>

theorem fact_row_without_parameters:
  "alice_init (NdArray alice_values) (NdArray alice_errors) alice_ch_mult_kwargs
     = Inr alice_ch_mult \<and>
   alice_init (NdArray alice_values) (NdArray alice_errors) kaon_kwargs = Inr alice_kaon_mult \<and>
   params alice_kaon_mult \<noteq> params alice_ch_mult \<and>
   populate_database None alice_kaon_mult = Inr db_run1 \<and>
   populate_database None alice_ch_mult = Inr db_run1 \<and>
   experimental_results db_run1 =
     [\<lparr> result_id = 1, system_id = 1, collaboration_id = 1, observable_id = 1,
        centrality_bins_col = json_dumps centrality_classes,
        value_col = json_dumps alice_values,
        error_col = json_dumps alice_errors,
        reference_col = str_dict alice_reference \<rparr>]"
proof -
  have "populate_database None alice_kaon_mult = Inr db_run1"
    by (simp add: populate_database_def insert_integrated_observable_data_def create_tables_def
      insert_or_ignore_def fetchone_def select_observable_id_def db_run1_def fact_row_def
      alice_ch_mult_def alice_kaon_mult_def ALICE_cent_bins_def max_rowid_def)
  moreover have "params alice_kaon_mult \<noteq> params alice_ch_mult"
    by (simp add: alice_kaon_mult_def alice_ch_mult_def)
  moreover have "experimental_results db_run1 =
     [\<lparr> result_id = 1, system_id = 1, collaboration_id = 1, observable_id = 1,
        centrality_bins_col = json_dumps centrality_classes,
        value_col = json_dumps alice_values,
        error_col = json_dumps alice_errors,
        reference_col = str_dict alice_reference \<rparr>]"
    by (simp add: db_run1_def fact_row_def)
  ultimately show ?thesis using populate_run1 alice_init_examples(1,3) by simp
qed

text \<open>
  C1, as the code has it. An entity that the constructor returns for numpy arrays of
  numbers is saved into a store whose keys are below the largest key, in which every
  fact row refers to an existing observable and no fact row yet joins an observable of
  the entity's short name. The save succeeds, and the row that the \<open>SELECT\<close> of the
  query then fetches for the short name holds the JSON text of the three arrays, each
  of which \<open>json.loads\<close> decodes to the numbers supplied to the constructor, integers
  and floats alike, and the \<open>str()\<close> text of the reference dictionary.
\<close>

theorem save_select_roundtrip:
  assumes made: "init k nm sn sys coll ref (NdArray b) (NdArray v) (NdArray e) trig kwargs
                   = Inr obs"
    and below: "rowids_below_max db"
    and ref_ok: "observable_id ` set (experimental_results db) \<subseteq> fst ` set (observables db)"
    and fresh: "select_results db sn = []"
  shows "\<exists>db' key rid oid rows.
     insert_integrated_observable_data db obs = Inr db' \<and>
     db' = db \<lparr> observables := observables db @ [(key, sn)],
                    experimental_results :=
                      experimental_results db @ [fact_row rid oid b v e ref] \<rparr> \<and>
     execute_select (Some db') sn = Inr rows \<and>
     fetchone rows = Some (json_dumps b, json_dumps v, json_dumps e, str_dict ref) \<and>
     json_loads (json_dumps b) = Some b \<and>
     json_loads (json_dumps v) = Some v \<and>
     json_loads (json_dumps e) = Some e"
proof -
  from made have f: "short_name obs = sn" "reference obs = ref"
    "centrality_bins obs = NdArray b" "values_of obs = NdArray v" "errors obs = NdArray e"
    by (auto simp: init_def split: sum.splits)
  from insert_integrated_observable_data_Inr [OF below f(3-5)] f(1,2) obtain k' rid oid where
    k: "k' \<notin> fst ` set (observables db)"
    and oid: "(oid, sn) \<in> set (observables db @ [(k', sn)])"
    and ins: "insert_integrated_observable_data db obs =
       Inr (db \<lparr> observables := observables db @ [(k', sn)],
                 experimental_results :=
                   experimental_results db @ [fact_row rid oid b v e ref] \<rparr>)"
    by auto
  let ?O = "observables db @ [(k', sn)]"
  let ?row = "fact_row rid oid b v e ref"
  let ?db' = "db \<lparr> observables := ?O,
                   experimental_results := experimental_results db @ [?row] \<rparr>"
  have old: "\<forall>r \<in> set (experimental_results db). \<forall>ob \<in> set ?O.
               observable_id r = fst ob \<longrightarrow> snd ob \<noteq> sn"
  proof (intro ballI impI)
    fix r ob
    assume r: "r \<in> set (experimental_results db)" and ob: "ob \<in> set ?O"
      and eq: "observable_id r = fst ob"
    from r ref_ok have "observable_id r \<in> fst ` set (observables db)" by auto
    with k have "observable_id r \<noteq> k'" by metis
    with eq ob have "ob \<in> set (observables db)" by auto
    with fresh r eq show "snd ob \<noteq> sn" by (auto simp: select_results_empty_iff)
  qed
  have "fetchone (select_results ?db' sn) =
          Some (centrality_bins_col ?row, value_col ?row, error_col ?row, reference_col ?row)"
  proof (rule fetchone_first_match [where pre = "experimental_results db" and post = "[]"])
    show "experimental_results ?db' = experimental_results db @ [?row]" by simp
    show "\<forall>r \<in> set (experimental_results db). \<forall>ob \<in> set (observables ?db').
            observable_id r = fst ob \<longrightarrow> snd ob \<noteq> sn"
      using old by simp
    show "\<exists>ob \<in> set (observables ?db'). observable_id ?row = fst ob \<and> snd ob = sn"
      using oid by (intro bexI [of _ "(oid, sn)"]) (simp_all add: fact_row_def)
  qed
  with ins show ?thesis
    by (intro exI [of _ ?db'] exI [of _ k'] exI [of _ rid] exI [of _ oid]
          exI [of _ "select_results ?db' sn"])
       (simp add: execute_select_def fact_row_def json_loads_dumps)
qed

text \<open>
  The second example with data in floats, built by the constructor and saved into the
  store that \<open>populate_database\<close> leaves.
\<close>

theorem save_select_roundtrip_witness:
  "init Multiplicity ''Identified pion multiplicity'' ''dNch_deta_pion'' ''Au-Au-200'' ''STAR''
     star_reference (NdArray centrality_classes)
     (NdArray (JList [JFloat (Finite False 32 D2 0), JFloat (Finite False 0 D5 (- 324))]))
     (NdArray (JList [JFloat (Finite False 1 D9 (- 1)), JFloat (Zero True)]))
     star_trigger_info star_pion_mult_kwargs
   = Inr (star_pion_mult
            (NdArray (JList [JFloat (Finite False 32 D2 0), JFloat (Finite False 0 D5 (- 324))]))
            (NdArray (JList [JFloat (Finite False 1 D9 (- 1)), JFloat (Zero True)]))) \<and>
   rowids_below_max db_run1 \<and>
   observable_id ` set (experimental_results db_run1) \<subseteq> fst ` set (observables db_run1) \<and>
   select_results db_run1 ''dNch_deta_pion'' = [] \<and>
   (\<exists>db' key rid oid rows.
      insert_integrated_observable_data db_run1
        (star_pion_mult
            (NdArray (JList [JFloat (Finite False 32 D2 0), JFloat (Finite False 0 D5 (- 324))]))
            (NdArray (JList [JFloat (Finite False 1 D9 (- 1)), JFloat (Zero True)])))
        = Inr db' \<and>
      db' = db_run1
              \<lparr> observables := observables db_run1 @ [(key, ''dNch_deta_pion'')],
                experimental_results :=
                  experimental_results db_run1 @
                  [fact_row rid oid centrality_classes
                     (JList [JFloat (Finite False 32 D2 0), JFloat (Finite False 0 D5 (- 324))])
                     (JList [JFloat (Finite False 1 D9 (- 1)), JFloat (Zero True)])
                     star_reference] \<rparr> \<and>
      execute_select (Some db') ''dNch_deta_pion'' = Inr rows \<and>
      fetchone rows =
        Some (json_dumps centrality_classes,
              json_dumps (JList [JFloat (Finite False 32 D2 0),
                                 JFloat (Finite False 0 D5 (- 324))]),
              json_dumps (JList [JFloat (Finite False 1 D9 (- 1)), JFloat (Zero True)]),
              str_dict star_reference) \<and>
      json_loads (json_dumps centrality_classes) = Some centrality_classes \<and>
      json_loads (json_dumps (JList [JFloat (Finite False 32 D2 0),
                                     JFloat (Finite False 0 D5 (- 324))])) =
        Some (JList [JFloat (Finite False 32 D2 0), JFloat (Finite False 0 D5 (- 324))]) \<and>
      json_loads (json_dumps (JList [JFloat (Finite False 1 D9 (- 1)), JFloat (Zero True)])) =
        Some (JList [JFloat (Finite False 1 D9 (- 1)), JFloat (Zero True)]))"
proof -
  let ?v = "JList [JFloat (Finite False 32 D2 0), JFloat (Finite False 0 D5 (- 324))]"
  let ?e = "JList [JFloat (Finite False 1 D9 (- 1)), JFloat (Zero True)]"
  let ?obs = "star_pion_mult (NdArray ?v) (NdArray ?e)"
  have m: "init Multiplicity ''Identified pion multiplicity'' ''dNch_deta_pion'' ''Au-Au-200''
             ''STAR'' star_reference (NdArray centrality_classes) (NdArray ?v) (NdArray ?e)
             star_trigger_info star_pion_mult_kwargs = Inr ?obs"
    by (simp add: init_def star_pion_mult_def STAR_cent_bins_def star_pion_mult_kwargs_def)
  have h: "rowids_below_max db_run1" by (rule rowids_below_max_examples)
  have a: "observable_id ` set (experimental_results db_run1) \<subseteq> fst ` set (observables db_run1)"
    by (simp add: db_run1_def fact_row_def)
  have b: "select_results db_run1 ''dNch_deta_pion'' = []"
    by (simp add: select_results_def db_run1_def)
  from save_select_roundtrip [OF m h a b] m h a b show ?thesis by blast
qed

text \<open>
  C1 as stated fails: the first example and the same measurement of pions, both built
  by the constructor, are different entities and leave the same store, so no load can
  return each of them.
\<close>

theorem save_drops_parameters:
  "alice_init (NdArray alice_values) (NdArray alice_errors) alice_ch_mult_kwargs
     = Inr alice_ch_mult \<and>
   alice_init (NdArray alice_values) (NdArray alice_errors) pion_kwargs = Inr alice_pion_mult \<and>
   alice_pion_mult \<noteq> alice_ch_mult \<and>
   insert_integrated_observable_data (create_tables None) alice_pion_mult
     = insert_integrated_observable_data (create_tables None) alice_ch_mult \<and>
   insert_integrated_observable_data (create_tables None) alice_ch_mult
     = Inr \<lparr> systems = [], collaborations = [], observables = [(1, ''dNch_deta'')],
             experimental_results =
               [fact_row 1 1 centrality_classes alice_values alice_errors alice_reference] \<rparr>"
proof -
  have "alice_pion_mult \<noteq> alice_ch_mult"
    by (simp add: alice_pion_mult_def alice_ch_mult_def)
  moreover have "insert_integrated_observable_data (create_tables None) alice_ch_mult
     = Inr \<lparr> systems = [], collaborations = [], observables = [(1, ''dNch_deta'')],
             experimental_results =
               [fact_row 1 1 centrality_classes alice_values alice_errors alice_reference] \<rparr>"
    by (simp add: insert_integrated_observable_data_def create_tables_def
        fetchone_def select_observable_id_def fact_row_def alice_ch_mult_def
        ALICE_cent_bins_def max_rowid_def)
  moreover have "insert_integrated_observable_data (create_tables None) alice_pion_mult
     = Inr \<lparr> systems = [], collaborations = [], observables = [(1, ''dNch_deta'')],
             experimental_results =
               [fact_row 1 1 centrality_classes alice_values alice_errors alice_reference] \<rparr>"
    by (simp add: insert_integrated_observable_data_def create_tables_def
        fetchone_def select_observable_id_def fact_row_def alice_ch_mult_def alice_pion_mult_def
        ALICE_cent_bins_def max_rowid_def)
  ultimately show ?thesis using alice_init_examples(1,2) by simp
qed

text \<open>
  C2 fails in the code. \<open>populate_database\<close> run twice with the first example: both
  runs resolve the observable to id 1, and the default system and collaboration stay
  single rows, but \<open>observables\<close> gains a row on each run, because its \<open>INSERT\<close> is
  unconditional.
\<close>

theorem populate_twice_duplicates_observable:
  "populate_database None alice_ch_mult = Inr db_run1 \<and>
   populate_database (Some db_run1) alice_ch_mult = Inr db_run2 \<and>
   systems db_run2 = [(1, ''Pb-Pb-2760'')] \<and>
   collaborations db_run2 = [(1, ''ALICE'')] \<and>
   observables db_run2 = [(1, ''dNch_deta''), (2, ''dNch_deta'')] \<and>
   map observable_id (experimental_results db_run2) = [1, 1]"
  using populate_run1 populate_run2 by (simp add: db_run2_def fact_row_def)

text \<open>
  C5 fails in the code. The second example, of STAR in Au-Au collisions, with any
  numbers for its data: the fact row carries the ids 1 and 1 of \<open>Pb-Pb-2760\<close> and
  \<open>ALICE\<close>, and the entity's own collision system and collaboration reach no table.
\<close>

theorem insert_writes_default_ids:
  "populate_database None (star_pion_mult (NdArray vals) (NdArray errs)) =
     Inr \<lparr> systems = [(1, ''Pb-Pb-2760'')], collaborations = [(1, ''ALICE'')],
           observables = [(1, ''dNch_deta_pion'')],
           experimental_results =
             [fact_row 1 1 centrality_classes vals errs star_reference] \<rparr> \<and>
   system_id (fact_row 1 1 centrality_classes vals errs star_reference) = 1 \<and>
   collaboration_id (fact_row 1 1 centrality_classes vals errs star_reference) = 1 \<and>
   collision_system (star_pion_mult (NdArray vals) (NdArray errs)) = ''Au-Au-200'' \<and>
   collaboration (star_pion_mult (NdArray vals) (NdArray errs)) = ''STAR''"
  by (simp add: populate_database_def insert_integrated_observable_data_def create_tables_def
      insert_or_ignore_def fetchone_def select_observable_id_def fact_row_def
      star_pion_mult_def STAR_cent_bins_def max_rowid_def)

end
